theory Spec2Isabelle
  imports Complex_Main
begin

section \<open>JavaScript numbers and small runtime helpers\<close>

text \<open>
  The engine (\<^verbatim>\<open>src/components/GameCanvas.tsx\<close>) computes on JavaScript numbers. They are
  modelled as exact reals: every comparison and every update below is the source's, with
  rounding left out. Optional fields of the TypeScript interfaces are \<open>option\<close> values
  (\<open>None\<close> is \<^verbatim>\<open>undefined\<close>) wherever the source tells \<^verbatim>\<open>undefined\<close> apart, and
  plain \<open>bool\<close> where only truthiness is read. Particles and audio cues are cosmetic
  (they never feed back into the simulation) and are left out; every other write of the
  fragments modelled here is kept.
\<close>

definition truthy :: "real option \<Rightarrow> bool" where
  \<comment> \<open>truthiness of an optional number: \<^verbatim>\<open>undefined\<close> and \<^verbatim>\<open>0\<close> are falsy\<close>
  "truthy v = (case v of None \<Rightarrow> False | Some r \<Rightarrow> r \<noteq> 0)"

definition positive :: "real option \<Rightarrow> bool" where
  \<comment> \<open>the idiom \<^verbatim>\<open>v && v > 0\<close> (and \<^verbatim>\<open>(v || 0) > 0\<close>)\<close>
  "positive v = (case v of None \<Rightarrow> False | Some r \<Rightarrow> r > 0)"

definition orElse :: "real option \<Rightarrow> real \<Rightarrow> real" where
  \<comment> \<open>the idiom \<^verbatim>\<open>v || d\<close> on an optional number\<close>
  "orElse v d = (case v of None \<Rightarrow> d | Some r \<Rightarrow> if r = 0 then d else r)"

definition distance :: "real \<Rightarrow> real \<Rightarrow> real \<Rightarrow> real \<Rightarrow> real" where
  \<comment> \<open>\<^verbatim>\<open>Math.sqrt(Math.pow(ax - bx, 2) + Math.pow(ay - by, 2))\<close>\<close>
  "distance ax ay bx by = sqrt ((ax - bx)\<^sup>2 + (ay - by)\<^sup>2)"

definition atan2 :: "real \<Rightarrow> real \<Rightarrow> real" where
  \<comment> \<open>\<^verbatim>\<open>Math.atan2(y, x)\<close>\<close>
  "atan2 y x =
     (if x > 0 then arctan (y / x)
      else if x < 0 \<and> y \<ge> 0 then arctan (y / x) + pi
      else if x < 0 then arctan (y / x) - pi
      else if y > 0 then pi / 2
      else if y < 0 then - (pi / 2)
      else 0)"

definition jsRem :: "real \<Rightarrow> real \<Rightarrow> real" where
  \<comment> \<open>the remainder operator \<^verbatim>\<open>a % b\<close> (truncating division), for \<open>b \<noteq> 0\<close>\<close>
  "jsRem a b = a - b * of_int (if a / b \<ge> 0 then \<lfloor>a / b\<rfloor> else \<lceil>a / b\<rceil>)"

section \<open>Data model (\<^verbatim>\<open>types.ts\<close>)\<close>

datatype Difficulty = EASY | NORMAL | HARD | EXTREME | INFINITY | BOSS_RUSH | BOSS_RUSH_EXTREME

datatype WeaponId =
  PLASMA_CUTTER | HOMING_NEEDLES | SPREAD_SHOTGUN | LASER_STREAM | WAVE_MOTION
  | ORBITING_ORBS | ROCKET_BARRAGE | CHAIN_LIGHTNING | BACK_TURRET | VORTEX_DRIVER
  | GAUSS_CANNON | PULSE_NOVA | PHASE_BLADES

datatype SpellCardId =
  TIME_DILATOR | EMP_BLAST | OVERCLOCK | PHANTOM_DASH | ORBITAL_STRIKE | NANO_REPAIR
  | AEGIS_SHIELD | STASIS_FIELD

datatype BoosterId =
  EXTRA_LIFE | ATTACK_UP | REGEN_UP | CDR_UP | LOOT_UP | EXTRA_WEAPON | EXTRA_SPELL | DMG_RED

datatype EnemyType =
  Drone | Tank | Interceptor | Seeker | Stealth | Boss | Seraph_drone | Oracle_minion
  | Gorgon | Kamikaze | Aegis_bot | Swarmer | Lich | Sniper | Reflector | Breacher
  | Illusion_clone | Boss_clone | Alp_reflector | Alp_mini_boss

datatype Variant = Alpha | Beta | Gamma | Delta | Theta | Somniomancer | Revenant | Alptraum

datatype GhostType = GhostGorgon | GhostTank

datatype GhostState = Idle | Positioning | Charging | Firing

datatype Owner = OwnerPlayer | OwnerEnemy

datatype EntryType = MobEntry | BossEntry

text \<open>
  Field names carry a prefix (\<open>p_\<close>, \<open>e_\<close>, \<open>b_\<close>) because the three interfaces share
  names (\<^verbatim>\<open>x\<close>, \<^verbatim>\<open>hp\<close>, \<^verbatim>\<open>dead\<close>, ...). Only the fields read or written by the modelled
  fragments are kept.
\<close>

record Player =
  p_x :: real
  p_y :: real
  p_hp :: real
  p_maxHp :: real
  p_invulnerableTime :: real
  p_framesSinceLastHit :: real
  p_grazing :: nat
  p_equippedWeapons :: "WeaponId list"
  p_weaponLevels :: "WeaponId \<Rightarrow> nat"
  p_spellLevels :: "SpellCardId \<Rightarrow> nat"
  p_shield :: "real option"
  p_revives :: nat
  p_activeBuffs :: "SpellCardId \<rightharpoonup> real"

record Enemy =
  e_id :: string
  e_x :: real
  e_y :: real
  e_width :: real
  e_height :: real
  e_vx :: real
  e_vy :: real
  e_dead :: bool
  e_hp :: real
  e_maxHp :: real
  e_type :: EnemyType
  e_variant :: "Variant option"
  e_scoreValue :: real
  e_patternTimer :: real
  e_shotTimer :: real
  e_frozenTimer :: "real option"
  e_phase :: "nat option"
  e_phaseTransitionTimer :: "real option"
  e_fightStartFrame :: "real option"
  e_dmgReduction :: "real option"
  e_dmgReductionTimer :: "real option"
  e_parentId :: "string option"
  e_orbitAngle :: "real option"
  e_orbitRadius :: "real option"
  e_orbitSpeed :: "real option"
  e_shieldHp :: "real option"
  e_shieldActive :: bool
  e_isReflecting :: bool
  e_isGhost :: bool
  e_ghostType :: "GhostType option"
  e_ghostState :: "GhostState option"
  e_ghostTimer :: "real option"

record Bullet =
  b_x :: real
  b_y :: real
  b_width :: real
  b_height :: real
  b_vx :: real
  b_vy :: real
  b_dead :: bool
  b_owner :: Owner
  b_damage :: real
  b_weaponId :: "WeaponId option"
  b_timer :: real
  b_piercing :: bool
  b_hitList :: "string list option"
  b_initialX :: "real option"
  b_orbitAngle :: "real option"
  b_orbitRadius :: "real option"
  b_splashRadius :: "real option"
  b_chainCount :: "real option"
  b_isVortex :: bool
  b_orbCooldown :: "real option"
  b_isLaser :: bool
  b_isMine :: bool
  b_hp :: "real option"
  b_isSpawner :: bool

text \<open>
  One call of the \<^verbatim>\<open>onGameOver(score, win, fragments, sessionStats)\<close> callback. The
  statistics are \<open>None\<close> for the empty object \<^verbatim>\<open>{}\<close> of the practice-mode calls, and
  otherwise (kills, boss kills, shots fired, deepest stage).
\<close>

datatype GameOverCall = OnGameOver real bool int "(nat \<times> nat \<times> nat \<times> nat) option"

text \<open>
  The mutable world (\<^verbatim>\<open>gameState.current\<close>). \<open>boss\<close> holds the id of the object that
  \<^verbatim>\<open>state.boss\<close> refers to; \<open>events\<close> records the calls of \<^verbatim>\<open>onGameOver\<close> in order;
  \<open>rnd\<close> is the stream of the values that the coming \<^verbatim>\<open>Math.random()\<close> calls return to the
  call sites modelled here (draws that only name an object, scatter a particle or shuffle
  the mob pool do not read it).
\<close>

record GameState =
  player :: Player
  bullets :: "Bullet list"
  enemies :: "Enemy list"
  keys :: "string \<Rightarrow> bool"
  frame :: nat
  score :: real
  stage :: nat
  stageTimer :: nat
  bossActive :: bool
  boss :: "string option"
  dataFragments :: int
  difficulty :: Difficulty
  timeScale :: real
  dialogueTimer :: real
  waveDelay :: real
  isGameOver :: bool
  kills :: nat
  bossKills :: nat
  shotsFired :: nat
  events :: "GameOverCall list"
  rnd :: "nat \<Rightarrow> real"

text \<open>
  The component's props and the constants of the absent module \<^verbatim>\<open>constants.ts\<close>
  (\<^verbatim>\<open>CANVAS_WIDTH\<close>, \<^verbatim>\<open>CANVAS_HEIGHT\<close>), taken as parameters.
\<close>

record Config =
  CANVAS_WIDTH :: real
  CANVAS_HEIGHT :: real
  difficultyProp :: Difficulty
  loadoutWeapons :: "WeaponId list"
  weaponLevelsProp :: "WeaponId \<Rightarrow> nat"
  spellLevelsProp :: "SpellCardId \<Rightarrow> nat"
  activeBoosters :: "BoosterId set"
  pityStacks :: real
  practiceMode :: "EntryType option"

definition hpMultiplier :: "Config \<Rightarrow> real" where
  "hpMultiplier c = 1 + 0.05 * pityStacks c"

definition damageMultiplier :: "Config \<Rightarrow> real" where
  "damageMultiplier c = 1 + 0.02 * pityStacks c"

definition incomingDamageMultiplier :: "Config \<Rightarrow> real" where
  "incomingDamageMultiplier c = (if DMG_RED \<in> activeBoosters c then 0.66 else 1.0)"

definition random :: "GameState \<Rightarrow> real \<times> GameState" where
  \<comment> \<open>\<^verbatim>\<open>Math.random()\<close>: take the head of the stream\<close>
  "random s = (rnd s 0, s\<lparr>rnd := (\<lambda>n. rnd s (Suc n))\<rparr>)"

section \<open>Area damage: \<^verbatim>\<open>createExplosion\<close> (lines 467-487)\<close>

definition explode :: "Config \<Rightarrow> real \<Rightarrow> real \<Rightarrow> real \<Rightarrow> real \<Rightarrow> Enemy \<Rightarrow> Enemy" where
  "explode c x y radius dmg e =
     (let finalDamage = (if ATTACK_UP \<in> activeBoosters c then dmg * 1.25 else dmg)
                        * damageMultiplier c
      in if distance (e_x e) (e_y e) x y < radius + e_width e
         then (if e_type e \<noteq> Boss_clone then e\<lparr>e_hp := e_hp e - finalDamage\<rparr> else e)
         else e)"

definition createExplosion :: "Config \<Rightarrow> real \<Rightarrow> real \<Rightarrow> real \<Rightarrow> real \<Rightarrow> GameState \<Rightarrow> GameState" where
  "createExplosion c x y radius dmg s = s\<lparr>enemies := map (explode c x y radius dmg) (enemies s)\<rparr>"

section \<open>Player-side damage resolution\<close>

definition sessionStats :: "GameState \<Rightarrow> (nat \<times> nat \<times> nat \<times> nat) option" where
  "sessionStats s = Some (kills s, bossKills s, shotsFired s, stage s)"

definition checkHit :: "Config \<Rightarrow> real \<Rightarrow> real \<Rightarrow> real \<Rightarrow> GameState \<Rightarrow> bool \<times> GameState" where
  \<comment> \<open>the closure \<^verbatim>\<open>checkHit\<close> of \<^verbatim>\<open>update\<close> (lines 1933-1950)\<close>
  "checkHit c entityX entityY sz s =
     (let p = player s;
          dist = distance entityX entityY (p_x p) (p_y p)
      in if dist < sz + 4 then
           (if positive (p_shield p) then
              (let s1 = s\<lparr>player := p\<lparr>p_shield := Some (the (p_shield p) - 20 * incomingDamageMultiplier c)\<rparr>\<rparr>;
                   s2 = (if p_spellLevels p AEGIS_SHIELD \<ge> 3
                         then createExplosion c (p_x p) (p_y p) 150 100 s1 else s1)
               in (True, s2\<lparr>player := (player s2)\<lparr>p_invulnerableTime := 30\<rparr>\<rparr>))
            else
              (let p1 = p\<lparr>p_hp := p_hp p - 20 * incomingDamageMultiplier c, p_framesSinceLastHit := 0\<rparr>
               in if p_hp p1 \<le> 0 then
                    (if p_revives p1 > 0 then
                       (True, createExplosion c (p_x p1) (p_y p1) 200 500
                                (s\<lparr>player := p1\<lparr>p_revives := p_revives p1 - 1, p_hp := p_maxHp p1,
                                                 p_invulnerableTime := 120\<rparr>\<rparr>))
                     else
                       (True, s\<lparr>player := p1, isGameOver := True,
                                events := events s @ [OnGameOver (score s) False (dataFragments s) (sessionStats s)]\<rparr>))
                  else (True, s\<lparr>player := p1\<lparr>p_invulnerableTime := 60\<rparr>\<rparr>)))
         else if dist < 20 then (False, s\<lparr>player := p\<lparr>p_grazing := p_grazing p + 1\<rparr>, score := score s + 10\<rparr>)
         else (False, s))"

definition orbBlocks :: "Bullet \<Rightarrow> Bullet \<Rightarrow> bool" where
  \<comment> \<open>an orb of the player that is off cooldown and touches the enemy bullet \<open>b\<close>\<close>
  "orbBlocks b orb =
     (b_owner orb = OwnerPlayer \<and> b_weaponId orb = Some ORBITING_ORBS
      \<and> \<not> positive (b_orbCooldown orb)
      \<and> distance (b_x orb) (b_y orb) (b_x b) (b_y b) < b_width orb + b_width b)"

definition enemyBulletVsPlayer :: "Config \<Rightarrow> nat \<Rightarrow> GameState \<Rightarrow> GameState" where
  \<comment> \<open>body of the loop over the enemy bullets (lines 1952-1971); \<open>bi\<close> is the bullet's index\<close>
  "enemyBulletVsPlayer c bi s =
     (let b = bullets s ! bi;
          p = player s;
          orb = (if ORBITING_ORBS \<in> set (p_equippedWeapons p) \<and> p_weaponLevels p ORBITING_ORBS \<ge> 3
                 then find (\<lambda>oi. orbBlocks b (bullets s ! oi)) [0..<length (bullets s)]
                 else None)
      in case orb of
           Some oi \<Rightarrow>
             s\<lparr>bullets := (bullets s)[bi := b\<lparr>b_dead := True\<rparr>,
                                        oi := (bullets s ! oi)\<lparr>b_orbCooldown := Some 240\<rparr>]\<rparr>
         | None \<Rightarrow>
             if b_isLaser b then
               (if b_y b > CANVAS_HEIGHT c then s
                else if p_y p > b_y b \<and> p_y p < b_y b + b_height b
                        \<and> p_x p > b_x b \<and> p_x p < b_x b + b_width b
                     then snd (checkHit c (p_x p) (p_y p) 0 s)
                     else s)
             else
               (case checkHit c (b_x b) (b_y b) (b_width b) s of
                  (hit, s1) \<Rightarrow>
                    if hit then s1\<lparr>bullets := (bullets s1)[bi := (bullets s1 ! bi)\<lparr>b_dead := True\<rparr>]\<rparr>
                    else s1))"

definition enemyBodyVsPlayer :: "Config \<Rightarrow> nat \<Rightarrow> GameState \<Rightarrow> GameState" where
  \<comment> \<open>body of the loop over the enemies (lines 1973-1978)\<close>
  "enemyBodyVsPlayer c ei s =
     (let e = enemies s ! ei
      in if \<not> e_isGhost e then snd (checkHit c (e_x e) (e_y e) (e_width e + 5) s) else s)"

definition playerCollisionPass :: "Config \<Rightarrow> GameState \<Rightarrow> GameState" where
  \<comment> \<open>lines 1930-1979: the invulnerability gate is read once, before both loops\<close>
  "playerCollisionPass c s =
     (if p_invulnerableTime (player s) > 0
      then s\<lparr>player := (player s)\<lparr>p_invulnerableTime := p_invulnerableTime (player s) - 1\<rparr>\<rparr>
      else
        (let s1 = fold (enemyBulletVsPlayer c)
                    (filter (\<lambda>i. b_owner (bullets s ! i) = OwnerEnemy) [0..<length (bullets s)]) s
         in fold (enemyBodyVsPlayer c) [0..<length (enemies s1)] s1))"

definition regen :: "Config \<Rightarrow> GameState \<Rightarrow> GameState" where
  \<comment> \<open>lines 626-632\<close>
  "regen c s =
     (let p = (player s)\<lparr>p_framesSinceLastHit := p_framesSinceLastHit (player s) + 1\<rparr>;
          regenThreshold = (if REGEN_UP \<in> activeBoosters c then 300 else 600)
      in if p_framesSinceLastHit p > regenThreshold \<and> frame s mod 60 = 0 \<and> p_hp p < p_maxHp p
         then s\<lparr>player := p\<lparr>p_hp := min (p_maxHp p) (p_hp p + 1)\<rparr>\<rparr>
         else s\<lparr>player := p\<rparr>)"

definition nanoRepair :: "nat \<Rightarrow> Player \<Rightarrow> Player" where
  \<comment> \<open>the \<^verbatim>\<open>NANO_REPAIR\<close> case of \<^verbatim>\<open>activateSpell\<close> (lines 546-552)\<close>
  "nanoRepair lvl p =
     (let healPercent = (if lvl \<ge> 2 then 0.5 else 0.3);
          p1 = p\<lparr>p_hp := min (p_maxHp p) (p_hp p + p_maxHp p * healPercent)\<rparr>
      in if lvl \<ge> 3 then p1\<lparr>p_hp := min (p_maxHp p1) (p_hp p1 + 20)\<rparr> else p1)"

definition kamikazeHitsPlayer :: "Config \<Rightarrow> GameState \<Rightarrow> GameState" where
  \<comment> \<open>the player's side of a kamikaze blast (line 1604, inside \<^verbatim>\<open>if (dist < 40)\<close>)\<close>
  "kamikazeHitsPlayer c s =
     (let p = player s
      in if p_invulnerableTime p \<le> 0 then
           (if positive (p_shield p) then
              s\<lparr>player := p\<lparr>p_shield := Some (the (p_shield p) - 30 * incomingDamageMultiplier c),
                               p_invulnerableTime := 30\<rparr>\<rparr>
            else
              (let p1 = p\<lparr>p_hp := p_hp p - 30 * incomingDamageMultiplier c,
                            p_framesSinceLastHit := 0, p_invulnerableTime := 60\<rparr>
               in if p_hp p1 \<le> 0 then
                    (if p_revives p1 > 0 then
                       createExplosion c (p_x p1) (p_y p1) 200 500
                         (s\<lparr>player := p1\<lparr>p_revives := p_revives p1 - 1, p_hp := p_maxHp p1,
                                          p_invulnerableTime := 120\<rparr>\<rparr>)
                     else
                       s\<lparr>player := p1, isGameOver := True,
                         events := events s @ [OnGameOver (score s) False (dataFragments s) (sessionStats s)]\<rparr>)
                  else s\<lparr>player := p1\<rparr>))
         else s)"

definition kamikazeBranch :: "Config \<Rightarrow> nat \<Rightarrow> GameState \<Rightarrow> GameState" where
  \<comment> \<open>the \<^verbatim>\<open>kamikaze\<close> branch of the enemy loop (line 1604)\<close>
  "kamikazeBranch c ei s =
     (let e = enemies s ! ei;
          p = player s;
          angle = atan2 (p_y p - e_y e) (p_x p - e_x e);
          vx1 = e_vx e + cos angle * 0.2;
          vy1 = e_vy e + sin angle * 0.2;
          speed = sqrt (vx1 * vx1 + vy1 * vy1);
          vx2 = (if speed > 5 then vx1 * 0.9 else vx1);
          vy2 = (if speed > 5 then vy1 * 0.9 else vy1);
          e1 = e\<lparr>e_vx := vx2, e_vy := vy2,
                   e_x := e_x e + vx2 * timeScale s, e_y := e_y e + vy2 * timeScale s\<rparr>;
          s1 = s\<lparr>enemies := (enemies s)[ei := e1]\<rparr>;
          dist = distance (p_x p) (p_y p) (e_x e1) (e_y e1)
      in if dist < 40 then
           (let s2 = kamikazeHitsPlayer c (createExplosion c (e_x e1) (e_y e1) 100 30 s1)
            in s2\<lparr>enemies := (enemies s2)[ei := (enemies s2 ! ei)\<lparr>e_dead := True\<rparr>]\<rparr>)
         else s1)"

section \<open>Initial world and object literals\<close>

definition initialPlayer :: "Config \<Rightarrow> Player" where
  \<comment> \<open>lines 66-90\<close>
  "initialPlayer c =
     \<lparr>p_x = CANVAS_WIDTH c / 2, p_y = CANVAS_HEIGHT c - 100,
      p_hp = 100 * hpMultiplier c, p_maxHp = 100 * hpMultiplier c,
      p_invulnerableTime = 0, p_framesSinceLastHit = 0, p_grazing = 0,
      p_equippedWeapons = loadoutWeapons c,
      p_weaponLevels = weaponLevelsProp c, p_spellLevels = spellLevelsProp c,
      p_shield = Some 0,
      p_revives = (if EXTRA_LIFE \<in> activeBoosters c then 1 else 0),
      p_activeBuffs = Map.empty\<rparr>"

definition initialState :: "Config \<Rightarrow> (nat \<Rightarrow> real) \<Rightarrow> GameState" where
  \<comment> \<open>lines 65-117; the second argument is the run's random stream\<close>
  "initialState c r =
     \<lparr>player = initialPlayer c, bullets = [], enemies = [], keys = (\<lambda>k. False),
      frame = 0, score = 0, stage = 1, stageTimer = 0, bossActive = False, boss = None,
      dataFragments = 0, difficulty = difficultyProp c, timeScale = 1.0, dialogueTimer = 0,
      waveDelay = 0, isGameOver = False, kills = 0, bossKills = 0, shotsFired = 0,
      events = [], rnd = r\<rparr>"

definition enemyLiteral ::
  "string \<Rightarrow> EnemyType \<Rightarrow> real \<Rightarrow> real \<Rightarrow> real \<Rightarrow> real \<Rightarrow> real \<Rightarrow> real \<Rightarrow> Enemy" where
  \<comment> \<open>the object literal shared by every spawn:
      \<^verbatim>\<open>{id, x, y, width: w, height: w, vx: 0, vy: 0, dead: false, hp, maxHp: hp, type,
        scoreValue, patternTimer: 0, shotTimer}\<close>; all optional fields absent\<close>
  "enemyLiteral i t x y w hp sv st =
     \<lparr>e_id = i, e_x = x, e_y = y, e_width = w, e_height = w, e_vx = 0, e_vy = 0,
      e_dead = False, e_hp = hp, e_maxHp = hp, e_type = t, e_variant = None,
      e_scoreValue = sv, e_patternTimer = 0, e_shotTimer = st, e_frozenTimer = None,
      e_phase = None, e_phaseTransitionTimer = None, e_fightStartFrame = None,
      e_dmgReduction = None, e_dmgReductionTimer = None, e_parentId = None,
      e_orbitAngle = None, e_orbitRadius = None, e_orbitSpeed = None, e_shieldHp = None,
      e_shieldActive = False, e_isReflecting = False, e_isGhost = False,
      e_ghostType = None, e_ghostState = None, e_ghostTimer = None\<rparr>"

definition bulletLiteral ::
  "Owner \<Rightarrow> WeaponId option \<Rightarrow> real \<Rightarrow> real \<Rightarrow> real \<Rightarrow> real \<Rightarrow> real \<Rightarrow> real \<Rightarrow> real \<Rightarrow> Bullet" where
  \<comment> \<open>the object literal shared by every shot:
      \<^verbatim>\<open>{id, x, y, width, height, vx, vy, dead: false, owner, damage, timer: 0, weaponId}\<close>;
      all optional fields absent\<close>
  "bulletLiteral ow wid x y w h vx vy dmg =
     \<lparr>b_x = x, b_y = y, b_width = w, b_height = h, b_vx = vx, b_vy = vy, b_dead = False,
      b_owner = ow, b_damage = dmg, b_weaponId = wid, b_timer = 0, b_piercing = False,
      b_hitList = None, b_initialX = None, b_orbitAngle = None, b_orbitRadius = None,
      b_splashRadius = None, b_chainCount = None, b_isVortex = False, b_orbCooldown = None,
      b_isLaser = False, b_isMine = False, b_hp = None, b_isSpawner = False\<rparr>"

section \<open>Player projectiles against enemies (lines 1830-1928)\<close>

text \<open>
  Bullets and enemies are objects mutated in place while they sit in their arrays, so the
  model addresses them by their index in \<open>bullets\<close> and \<open>enemies\<close> and reads them again
  after every write. During this pass nothing is removed from either array, and new
  bullets are appended at the end, so an index keeps naming the same object.
\<close>

definition updBullet :: "nat \<Rightarrow> (Bullet \<Rightarrow> Bullet) \<Rightarrow> GameState \<Rightarrow> GameState" where
  "updBullet bi f s = s\<lparr>bullets := (bullets s)[bi := f (bullets s ! bi)]\<rparr>"

definition updEnemy :: "nat \<Rightarrow> (Enemy \<Rightarrow> Enemy) \<Rightarrow> GameState \<Rightarrow> GameState" where
  "updEnemy ei f s = s\<lparr>enemies := (enemies s)[ei := f (enemies s ! ei)]\<rparr>"

definition hitListOf :: "Bullet \<Rightarrow> string list" where
  \<comment> \<open>\<^verbatim>\<open>b.hitList || []\<close>\<close>
  "hitListOf b = (case b_hitList b of None \<Rightarrow> [] | Some hl \<Rightarrow> hl)"

definition inHitList :: "Bullet \<Rightarrow> string \<Rightarrow> bool" where
  \<comment> \<open>\<^verbatim>\<open>b.hitList && b.hitList.includes(id)\<close>\<close>
  "inHitList b i = (case b_hitList b of None \<Rightarrow> False | Some hl \<Rightarrow> i \<in> set hl)"

definition clusterExplosion :: "Config \<Rightarrow> nat \<Rightarrow> GameState \<Rightarrow> GameState" where
  \<comment> \<open>one round of the cluster loop: two draws, then a burst of radius 30\<close>
  "clusterExplosion c bi s =
     (case random s of (r1, sa) \<Rightarrow>
        case random sa of (r2, sb) \<Rightarrow>
          (let b = bullets sb ! bi
           in createExplosion c (b_x b + (r1 - 0.5) * 40) (b_y b + (r2 - 0.5) * 40) 30
                (b_damage b / 2) sb))"

definition splashPayout :: "Config \<Rightarrow> nat \<Rightarrow> GameState \<Rightarrow> GameState" where
  "splashPayout c bi s =
     (let b = bullets s ! bi;
          s1 = createExplosion c (b_x b) (b_y b) (the (b_splashRadius b)) (b_damage b) s;
          s2 = (if b_chainCount b = Some (- 1)
                then clusterExplosion c bi (clusterExplosion c bi (clusterExplosion c bi s1))
                else s1)
      in updBullet bi (\<lambda>b. b\<lparr>b_dead := True\<rparr>) s2)"

definition chainNextTarget :: "Enemy \<Rightarrow> real \<Rightarrow> Enemy list \<Rightarrow> Enemy option" where
  \<comment> \<open>\<^verbatim>\<open>state.enemies.find(ne => ne.id !== e.id && !ne.dead && dist(ne, e) < 200 * rangeMult)\<close>\<close>
  "chainNextTarget e rangeMult es =
     find (\<lambda>ne. e_id ne \<noteq> e_id e \<and> \<not> e_dead ne
                \<and> distance (e_x ne) (e_y ne) (e_x e) (e_y e) < 200 * rangeMult) es"

definition chainPayout :: "nat \<Rightarrow> nat \<Rightarrow> GameState \<Rightarrow> GameState" where
  "chainPayout bi ei s =
     (let b = bullets s ! bi;
          e = enemies s ! ei;
          b1 = b\<lparr>b_chainCount := Some (the (b_chainCount b) - 1),
                   b_hitList := Some (hitListOf b @ [e_id e])\<rparr>;
          rangeMult = orElse (b_orbitRadius b1) 1
      in case chainNextTarget e rangeMult (enemies s) of
           Some nextTarget \<Rightarrow>
             (let angle = atan2 (e_y nextTarget - b_y b1) (e_x nextTarget - b_x b1)
              in updBullet bi (\<lambda>_. b1\<lparr>b_vx := cos angle * 20, b_vy := sin angle * 20,
                                         b_x := e_x e, b_y := e_y e\<rparr>) s)
         | None \<Rightarrow> updBullet bi (\<lambda>_. b1\<lparr>b_dead := True\<rparr>) s)"

definition piercePayout :: "nat \<Rightarrow> nat \<Rightarrow> GameState \<Rightarrow> GameState" where
  "piercePayout bi ei s =
     (let b = bullets s ! bi;
          e = enemies s ! ei;
          b1 = b\<lparr>b_hitList := Some (hitListOf b @ [e_id e])\<rparr>;
          b2 = (if b_weaponId b1 = Some GAUSS_CANNON then
                  (case b_chainCount b1 of
                     None \<Rightarrow> b1
                   | Some n \<Rightarrow>
                       (if n - 1 \<le> 0 then b1\<lparr>b_chainCount := Some (n - 1), b_dead := True\<rparr>
                        else b1\<lparr>b_chainCount := Some (n - 1)\<rparr>))
                else b1)
      in updBullet bi (\<lambda>_. b2) s)"

definition onHitPayout :: "Config \<Rightarrow> nat \<Rightarrow> nat \<Rightarrow> GameState \<Rightarrow> GameState" where
  \<comment> \<open>the weapon-specific chain of \<^verbatim>\<open>if / else if\<close> of line 1890\<close>
  "onHitPayout c bi ei s =
     (let b = bullets s ! bi
      in if truthy (b_splashRadius b) \<and> b_weaponId b \<noteq> Some ORBITING_ORBS
            \<and> b_weaponId b \<noteq> Some PULSE_NOVA \<and> b_weaponId b \<noteq> Some WAVE_MOTION
         then splashPayout c bi s
         else if positive (b_chainCount b) \<and> b_weaponId b \<noteq> Some PULSE_NOVA
         then chainPayout bi ei s
         else if b_piercing b then piercePayout bi ei s
         else if b_weaponId b \<noteq> Some ORBITING_ORBS \<and> b_weaponId b \<noteq> Some PULSE_NOVA
         then updBullet bi (\<lambda>b. b\<lparr>b_dead := True\<rparr>) s
         else s)"

definition lootMult :: "Difficulty \<Rightarrow> real" where
  "lootMult d =
     (if d = NORMAL then 2 else if d = HARD then 4 else if d = EXTREME then 8
      else if d = INFINITY then 10 else 1)"

definition bossCascade :: "Enemy \<Rightarrow> Enemy" where
  \<comment> \<open>the clean-up filter of line 1905, applied to one enemy\<close>
  "bossCascade en =
     (if e_type en = Boss_clone \<or> e_isGhost en \<or> e_type en = Alp_mini_boss
         \<or> e_type en = Alp_reflector \<or> e_type en = Seraph_drone
      then en\<lparr>e_dead := True\<rparr> else en)"

definition bossDefeated :: "Config \<Rightarrow> GameState \<Rightarrow> GameState" where
  \<comment> \<open>lines 1903-1911. \<^verbatim>\<open>refreshMobPool()\<close> writes only the mob pool, which is not modelled.\<close>
  "bossDefeated c s =
     (let s1 = s\<lparr>bossKills := bossKills s + 1, bossActive := False, boss := None\<rparr>;
          s2 = s1\<lparr>enemies := map bossCascade (enemies s1)\<rparr>
      in if practiceMode c \<noteq> None
         then s2\<lparr>isGameOver := True, events := events s2 @ [OnGameOver (score s2) True 0 None]\<rparr>
         else
           (let s3 = s2\<lparr>waveDelay := 120, stage := stage s2 + 1, stageTimer := 0,
                        score := score s2 + 10000\<rparr>;
                isBossRush = (difficulty s3 = BOSS_RUSH \<or> difficulty s3 = BOSS_RUSH_EXTREME);
                maxStages = (if isBossRush then 16 else 6)
            in if stage s3 \<ge> maxStages \<and> difficulty s3 \<noteq> INFINITY
               then s3\<lparr>events := events s3 @
                         [OnGameOver (score s3) True (dataFragments s3) (sessionStats s3)]\<rparr>
               else s3))"

definition deathPayout :: "Config \<Rightarrow> nat \<Rightarrow> nat \<Rightarrow> GameState \<Rightarrow> GameState" where
  \<comment> \<open>\<^verbatim>\<open>if (e.hp <= 0 && !e.dead) { ... }\<close> (lines 1892-1912)\<close>
  "deathPayout c bi ei s =
     (let e = enemies s ! ei;
          b = bullets s ! bi
      in if e_hp e \<le> 0 \<and> \<not> e_dead e then
           (let s1 = updEnemy ei (\<lambda>e. e\<lparr>e_dead := True\<rparr>) s;
                s2 = s1\<lparr>score := score s1 + e_scoreValue e, kills := kills s1 + 1\<rparr>
            in case random s2 of (r, s3) \<Rightarrow>
              (let baseFragments = \<lfloor>r * 3\<rfloor> + 2;
                   bossRushMult = (if difficulty s3 = BOSS_RUSH \<or> difficulty s3 = BOSS_RUSH_EXTREME
                                   then 3 else 1);
                   boosterMult = (if LOOT_UP \<in> activeBoosters c then 2 else 1);
                   s4 = s3\<lparr>dataFragments := dataFragments s3 +
                             \<lceil>of_int baseFragments * lootMult (difficulty s3) * bossRushMult * boosterMult\<rceil>\<rparr>;
                   s5 = (if b_weaponId b = Some PULSE_NOVA \<and> p_weaponLevels (player s4) PULSE_NOVA \<ge> 3
                         then createExplosion c (e_x e) (e_y e) 100 50 s4 else s4);
                   s6 = (if e_type e = Kamikaze then createExplosion c (e_x e) (e_y e) 80 0 s5 else s5)
               in if e_type e = Boss then bossDefeated c s6 else s6))
         else s)"

definition directHit :: "Config \<Rightarrow> nat \<Rightarrow> nat \<Rightarrow> GameState \<Rightarrow> GameState" where
  \<comment> \<open>body of \<^verbatim>\<open>if (dist < e.width + b.width)\<close> (lines 1871-1913)\<close>
  "directHit c bi ei s =
     (let b = bullets s ! bi;
          e = enemies s ! ei
      in if e_type e = Boss_clone
         then updBullet bi (\<lambda>b. b\<lparr>b_dead := True\<rparr>) (createExplosion c (b_x b) (b_y b) 10 0 s)
         else
           (let frozenBonus = (if positive (e_frozenTimer e) \<and> p_spellLevels (player s) STASIS_FIELD \<ge> 3
                               then 1.5 else 1.0);
                d0 = b_damage b * frozenBonus;
                finalDamage = (if positive (e_dmgReduction e) then d0 * (1 - the (e_dmgReduction e)) else d0);
                s1 = updEnemy ei (\<lambda>e. e\<lparr>e_hp := e_hp e - finalDamage\<rparr>) s;
                s2 = (if b_weaponId b = Some PULSE_NOVA \<and> jsRem (b_timer b) (orElse (b_splashRadius b) 20) = 0
                      then createExplosion c (b_x b) (b_y b) 60 (b_damage b / 2) s1 else s1)
            in deathPayout c bi ei (onHitPayout c bi ei s2)))"

definition reflectShot :: "Enemy \<Rightarrow> Bullet" where
  "reflectShot e = bulletLiteral OwnerEnemy None (e_x e) (e_y e + 10) 6 6 0 5 10"

definition resolvePair :: "Config \<Rightarrow> nat \<Rightarrow> nat \<Rightarrow> GameState \<Rightarrow> GameState" where
  \<comment> \<open>body of the inner loop: player bullet \<open>bi\<close> against enemy \<open>ei\<close> (lines 1833-1914)\<close>
  "resolvePair c bi ei s =
     (let b = bullets s ! bi;
          e = enemies s ! ei
      in if e_dead e \<or> b_dead b then s
         else if inHitList b (e_id e) then s
         else if e_isGhost e then s
         else if (e_type e = Reflector \<or> e_type e = Alp_reflector) \<and> e_isReflecting e
                 \<and> distance (b_x b) (b_y b) (e_x e) (e_y e) < e_width e + b_width b + 10
         then (let s1 = updBullet bi (\<lambda>b. b\<lparr>b_dead := True\<rparr>) s
               in s1\<lparr>bullets := bullets s1 @ [reflectShot e]\<rparr>)
         else if e_type e = Boss \<and> (e_variant e = Some Theta \<or> e_variant e = Some Alptraum)
                 \<and> e_shieldActive e \<and> positive (e_shieldHp e)
                 \<and> distance (b_x b) (b_y b) (e_x e) (e_y e) < 80
         then updBullet bi (\<lambda>b. b\<lparr>b_dead := True\<rparr>)
                (updEnemy ei (\<lambda>e. if truthy (e_shieldHp e)
                                   then e\<lparr>e_shieldHp := Some (the (e_shieldHp e) - b_damage b)\<rparr>
                                   else e) s)
         else if distance (b_x b) (b_y b) (e_x e) (e_y e) < e_width e + b_width b
         then directHit c bi ei s
         else s)"

definition mineHit :: "Config \<Rightarrow> nat \<Rightarrow> nat \<Rightarrow> GameState \<Rightarrow> GameState" where
  \<comment> \<open>player bullet \<open>bi\<close> against the mine at index \<open>mi\<close> (lines 1918-1925)\<close>
  "mineHit c bi mi s =
     (let b = bullets s ! bi;
          mine = bullets s ! mi
      in if distance (b_x b) (b_y b) (b_x mine) (b_y mine) < b_width mine + b_width b
         then createExplosion c (b_x mine) (b_y mine) 20 0
                (updBullet mi (\<lambda>m. if truthy (b_hp m) then m\<lparr>b_hp := Some (the (b_hp m) - b_damage b)\<rparr>
                                    else m)
                   (updBullet bi (\<lambda>b. b\<lparr>b_dead := True\<rparr>) s))
         else s)"

definition playerBulletVsEnemies :: "Config \<Rightarrow> nat \<Rightarrow> GameState \<Rightarrow> GameState" where
  \<comment> \<open>body of the outer loop, for the player bullet at index \<open>bi\<close>\<close>
  "playerBulletVsEnemies c bi s =
     (if b_isVortex (bullets s ! bi) then s
      else
        (let s1 = fold (resolvePair c bi) [0..<length (enemies s)] s
         in if b_owner (bullets s1 ! bi) = OwnerPlayer \<and> \<not> b_dead (bullets s1 ! bi)
            then fold (mineHit c bi)
                   (filter (\<lambda>mi. b_isMine (bullets s1 ! mi) \<and> \<not> b_dead (bullets s1 ! mi))
                      [0..<length (bullets s1)]) s1
            else s1))"

definition playerBulletPass :: "Config \<Rightarrow> GameState \<Rightarrow> GameState" where
  \<comment> \<open>\<^verbatim>\<open>state.bullets.filter(b => b.owner === 'player').forEach(...)\<close>\<close>
  "playerBulletPass c s =
     fold (playerBulletVsEnemies c)
       (filter (\<lambda>i. b_owner (bullets s ! i) = OwnerPlayer) [0..<length (bullets s)]) s"

section \<open>Enemy behaviour: the body of the enemy loop (lines 814-1617)\<close>

text \<open>
  The callback of \<^verbatim>\<open>state.enemies.forEach\<close> runs, for the enemy at index \<open>ei\<close>: the
  damage-reduction timer, the ghost-drone logic, the boss phase logic, the clone and
  mini-boss placement, the freeze check, the two timers, then a branch chosen by the
  enemy's type, and last the bounds check. \<open>enemyPrelude\<close> is everything before the type
  branch; its \<open>Flow\<close> tells how the callback went on: it returned early, it entered the
  ghost-drone logic (lines 825-890, which always returns and is not modelled), or it went
  on to the type branch. Ids of spawned objects are modelled by their fixed prefix (the
  source appends a time stamp or a random number).
\<close>

datatype Flow = Returned | GhostLogic | Dispatch

definition shieldTimerStep :: "Enemy \<Rightarrow> Enemy" where
  \<comment> \<open>lines 816-822\<close>
  "shieldTimerStep e =
     (if positive (e_dmgReductionTimer e) then
        (let t = the (e_dmgReductionTimer e) - 1;
             e1 = e\<lparr>e_dmgReductionTimer := Some t\<rparr>
         in if t \<le> 0 then e1\<lparr>e_dmgReduction := Some 0\<rparr> else e1)
      else e)"

definition spawnGhostDrone :: "GhostType \<Rightarrow> real \<Rightarrow> real \<Rightarrow> GameState \<Rightarrow> GameState" where
  \<comment> \<open>lines 161-180\<close>
  "spawnGhostDrone gt x y s =
     (case random s of (r, s1) \<Rightarrow>
        s1\<lparr>enemies := enemies s1 @
             [(enemyLiteral (if gt = GhostGorgon then ''ghost_gorgon'' else ''ghost_tank'') Drone x y
                 (if gt = GhostGorgon then 25 else 22) 999999 0 0)
                \<lparr>e_isGhost := True, e_ghostType := Some gt, e_ghostState := Some Idle,
                  e_ghostTimer := Some (r * 180 + 240)\<rparr>]\<rparr>)"

definition somnioReplica :: "Enemy \<Rightarrow> Enemy" where
  \<comment> \<open>the object literal of lines 914-920\<close>
  "somnioReplica e =
     (enemyLiteral ''somnio_replica'' Boss_clone (e_x e + 100) (e_y e) (e_width e) 999999 0 0)
       \<lparr>e_height := e_height e, e_variant := Some Somniomancer, e_phase := Some 2\<rparr>"

definition clearPlayerBullet :: "Config \<Rightarrow> nat \<Rightarrow> GameState \<Rightarrow> GameState" where
  \<comment> \<open>lines 907-910, for the player bullet at index \<open>bi\<close>\<close>
  "clearPlayerBullet c bi s =
     updBullet bi (\<lambda>b. b\<lparr>b_dead := True\<rparr>)
       (createExplosion c (b_x (bullets s ! bi)) (b_y (bullets s ! bi)) 20 0 s)"

definition phaseTrigger :: "Config \<Rightarrow> nat \<Rightarrow> GameState \<Rightarrow> GameState" where
  \<comment> \<open>body of \<^verbatim>\<open>if (e.phase === 1 && e.hp < e.maxHp * 0.4)\<close> (lines 896-929)\<close>
  "phaseTrigger c ei s =
     (let s1 = updEnemy ei (\<lambda>e. e\<lparr>e_phase := Some 2, e_phaseTransitionTimer := Some 120,
                                    e_dmgReduction := Some 0.5, e_dmgReductionTimer := Some 300\<rparr>) s;
          e = enemies s1 ! ei;
          s2 = createExplosion c (e_x e) (e_y e) 200 0 s1;
          s3 = s2\<lparr>dialogueTimer := 180\<rparr>;
          s4 = fold (clearPlayerBullet c)
                 (filter (\<lambda>i. b_owner (bullets s3 ! i) = OwnerPlayer) [0..<length (bullets s3)]) s3;
          s5 = (if e_variant e = Some Somniomancer
                then s4\<lparr>enemies := enemies s4 @ [somnioReplica (enemies s4 ! ei)]\<rparr> else s4)
      in if e_variant e = Some Alptraum
         then spawnGhostDrone GhostTank (CANVAS_WIDTH c + 50) (CANVAS_HEIGHT c / 2) s5
         else s5)"

definition bossPhaseStep :: "Config \<Rightarrow> nat \<Rightarrow> GameState \<Rightarrow> Flow \<times> GameState" where
  \<comment> \<open>body of \<^verbatim>\<open>if (e.type === 'boss')\<close> (lines 893-938)\<close>
  "bossPhaseStep c ei s =
     (let e = enemies s ! ei;
          s1 = (if e_phase e = Some 1 \<and> e_hp e < e_maxHp e * 0.4 then phaseTrigger c ei s else s)
      in if positive (e_phaseTransitionTimer (enemies s1 ! ei))
         then (Returned,
               updEnemy ei (\<lambda>e. e\<lparr>e_phaseTransitionTimer := Some (the (e_phaseTransitionTimer e) - 1),
                                    e_fightStartFrame := Some (orElse (e_fightStartFrame e) 0 + 1)\<rparr>) s1)
         else (Dispatch, s1))"

definition findParent :: "GameState \<Rightarrow> Enemy \<Rightarrow> Enemy option" where
  \<comment> \<open>\<^verbatim>\<open>state.enemies.find(p => p.id === e.parentId)\<close>\<close>
  "findParent s e =
     (case e_parentId e of None \<Rightarrow> None | Some pid \<Rightarrow> find (\<lambda>p. e_id p = pid) (enemies s))"

definition cloneLogic :: "Config \<Rightarrow> GameState \<Rightarrow> Enemy \<Rightarrow> Enemy" where
  \<comment> \<open>lines 940-946\<close>
  "cloneLogic c s e =
     (if e_type e = Boss_clone \<and> e_variant e = Some Somniomancer
      then e\<lparr>e_x := CANVAS_WIDTH c / 2 + cos (real (frame s) * 0.02) * 150,
             e_y := 100 + sin (real (frame s) * 0.03) * 50\<rparr>
      else e)"

definition miniBossOrbit :: "GameState \<Rightarrow> Enemy \<Rightarrow> Enemy" where
  \<comment> \<open>lines 948-962; an empty string is falsy in \<^verbatim>\<open>if (e.parentId)\<close>\<close>
  "miniBossOrbit s e =
     (if e_type e = Alp_mini_boss \<and> e_parentId e \<noteq> None \<and> e_parentId e \<noteq> Some []
      then (case findParent s e of
              None \<Rightarrow> e\<lparr>e_dead := True\<rparr>
            | Some parent \<Rightarrow>
                if \<not> e_dead parent then
                  (let a = orElse (e_orbitAngle e) 0 + 0.02
                   in e\<lparr>e_orbitAngle := Some a, e_x := e_x parent + cos a * 120,
                         e_y := e_y parent + sin a * 120\<rparr>)
                else e\<lparr>e_dead := True\<rparr>)
      else e)"

definition enemyPrelude :: "Config \<Rightarrow> nat \<Rightarrow> GameState \<Rightarrow> Flow \<times> GameState" where
  "enemyPrelude c ei s =
     (let s1 = updEnemy ei shieldTimerStep s
      in if e_isGhost (enemies s1 ! ei) \<and> e_type (enemies s1 ! ei) = Drone then (GhostLogic, s1)
         else
           (case (if e_type (enemies s1 ! ei) = Boss then bossPhaseStep c ei s1 else (Dispatch, s1)) of
              (Returned, s2) \<Rightarrow> (Returned, s2)
            | (GhostLogic, s2) \<Rightarrow> (GhostLogic, s2)
            | (Dispatch, s2) \<Rightarrow>
                (let s3 = updEnemy ei (cloneLogic c s2) s2;
                     s4 = updEnemy ei (miniBossOrbit s3) s3
                 in if positive (e_frozenTimer (enemies s4 ! ei))
                    then (Returned,
                          updEnemy ei (\<lambda>e. e\<lparr>e_frozenTimer := Some (the (e_frozenTimer e) - 1)\<rparr>) s4)
                    else (Dispatch,
                          updEnemy ei (\<lambda>e. e\<lparr>e_patternTimer := e_patternTimer e + 1,
                                               e_shotTimer := e_shotTimer e + 1\<rparr>) s4))))"

definition enemyShot :: "real \<Rightarrow> real \<Rightarrow> real \<Rightarrow> real \<Rightarrow> real \<Rightarrow> real \<Rightarrow> Bullet" where
  \<comment> \<open>an enemy bullet \<^verbatim>\<open>{x, y, width: w, height: w, vx, vy, owner: 'enemy', damage, timer: 0}\<close>\<close>
  "enemyShot x y w vx vy dmg = bulletLiteral OwnerEnemy None x y w w vx vy dmg"

definition pushBullets :: "Bullet list \<Rightarrow> GameState \<Rightarrow> GameState" where
  "pushBullets bs s = s\<lparr>bullets := bullets s @ bs\<rparr>"

definition seraphDroneBranch :: "nat \<Rightarrow> GameState \<Rightarrow> GameState" where
  \<comment> \<open>lines 1569-1582\<close>
  "seraphDroneBranch ei s =
     (let e = enemies s ! ei; p = player s
      in if e_parentId e \<noteq> None \<and> e_parentId e \<noteq> Some [] then
           (case findParent s e of
              None \<Rightarrow> updEnemy ei (\<lambda>e. e\<lparr>e_dead := True\<rparr>) s
            | Some parent \<Rightarrow>
                if \<not> e_dead parent then
                  (let a = orElse (e_orbitAngle e) 0 + orElse (e_orbitSpeed e) 0.05;
                       e1 = e\<lparr>e_orbitAngle := Some a,
                               e_x := e_x parent + cos a * orElse (e_orbitRadius e) 100,
                               e_y := e_y parent + sin a * orElse (e_orbitRadius e) 100\<rparr>;
                       fireThreshold = (if e_phase parent = Some 2 then 60 else 120)
                   in if e_shotTimer e1 > fireThreshold then
                        (let angle = atan2 (p_y p - e_y e1) (p_x p - e_x e1)
                         in pushBullets [enemyShot (e_x e1) (e_y e1) 4 (cos angle * 2) (sin angle * 2) 8]
                              (updEnemy ei (\<lambda>_. e1\<lparr>e_shotTimer := 0\<rparr>) s))
                      else updEnemy ei (\<lambda>_. e1) s)
                else updEnemy ei (\<lambda>e. e\<lparr>e_dead := True\<rparr>) s)
         else s)"

definition oracleMinionBranch :: "Config \<Rightarrow> nat \<Rightarrow> GameState \<Rightarrow> GameState" where
  \<comment> \<open>lines 1583-1593\<close>
  "oracleMinionBranch c ei s =
     (let e = enemies s ! ei; p = player s; parent = findParent s e
      in if e_variant e = Some Alpha then
           (let e1 = (case parent of
                        Some pa \<Rightarrow>
                          if \<not> e_dead pa then
                            (let a = orElse (e_orbitAngle e) 0 + orElse (e_orbitSpeed e) 0.03
                             in e\<lparr>e_orbitAngle := Some a,
                                   e_x := e_x pa + cos a * orElse (e_orbitRadius e) 80,
                                   e_y := e_y pa + sin a * orElse (e_orbitRadius e) 80\<rparr>)
                          else e\<lparr>e_x := e_x e + cos (orElse (e_orbitAngle e) 0) * 1,
                                 e_y := e_y e + sin (orElse (e_orbitAngle e) 0) * 1\<rparr>
                      | None \<Rightarrow> e\<lparr>e_x := e_x e + cos (orElse (e_orbitAngle e) 0) * 1,
                                   e_y := e_y e + sin (orElse (e_orbitAngle e) 0) * 1\<rparr>)
            in if e_shotTimer e1 > 120 then
                 (case random s of (r1, sa) \<Rightarrow>
                    if r1 > 0.5 then
                      (let angle = atan2 (p_y p - e_y e1) (p_x p - e_x e1)
                       in pushBullets [enemyShot (e_x e1) (e_y e1) 4 (cos angle * 3) (sin angle * 3) 8]
                            (updEnemy ei (\<lambda>_. e1\<lparr>e_shotTimer := 0\<rparr>) sa))
                    else
                      (case random sa of (r2, sb) \<Rightarrow>
                         (let angle = r2 * pi * 2
                          in pushBullets [enemyShot (e_x e1) (e_y e1) 4 (cos angle * 3) (sin angle * 3) 8]
                               (updEnemy ei (\<lambda>_. e1\<lparr>e_shotTimer := 0\<rparr>) sb))))
               else updEnemy ei (\<lambda>_. e1) s)
         else
           (let e1 = e\<lparr>e_x := e_x e + e_vx e, e_y := e_y e + e_vy e\<rparr>;
                e2 = (if e_x e1 < 10 \<or> e_x e1 > CANVAS_WIDTH c - 10 then e1\<lparr>e_vx := e_vx e1 * (- 1)\<rparr> else e1)
            in if e_shotTimer e2 > 60
               then pushBullets [enemyShot (e_x e2) (e_y e2) 6 0 4 10]
                      (updEnemy ei (\<lambda>_. e2\<lparr>e_shotTimer := 0\<rparr>) s)
               else updEnemy ei (\<lambda>_. e2) s))"

definition reflectorToggle :: "Enemy \<Rightarrow> Enemy" where
  \<comment> \<open>shared by \<^verbatim>\<open>alp_reflector\<close> (lines 1561-1567) and \<^verbatim>\<open>reflector\<close> (line 1609)\<close>
  "reflectorToggle e =
     (let e1 = e\<lparr>e_patternTimer := e_patternTimer e + 1\<rparr>
      in if e_patternTimer e1 > 300
         then e1\<lparr>e_isReflecting := \<not> e_isReflecting e1, e_patternTimer := 0\<rparr> else e1)"

definition standardMob :: "Config \<Rightarrow> nat \<Rightarrow> GameState \<Rightarrow> GameState option" where
  \<comment> \<open>the branches of lines 1597-1610 that are modelled; \<open>None\<close> for the other types\<close>
  "standardMob c ei s =
     (let e = enemies s ! ei; p = player s; ts = timeScale s
      in if e_type e = Drone then
           (let e1 = e\<lparr>e_y := e_y e + 2 * ts\<rparr>;
                e2 = e1\<lparr>e_x := e_x e1 + sin (e_patternTimer e1 * 0.05) * 3 * ts\<rparr>
            in if e_shotTimer e2 > 120 then
                 (let angle = atan2 (p_y p - e_y e2) (p_x p - e_x e2)
                  in Some (pushBullets [enemyShot (e_x e2) (e_y e2) 5 (cos angle * 2) (sin angle * 2) 10]
                             (updEnemy ei (\<lambda>_. e2\<lparr>e_shotTimer := 0\<rparr>) s)))
               else Some (updEnemy ei (\<lambda>_. e2) s))
         else if e_type e = Tank then
           (let e1 = e\<lparr>e_y := e_y e + 0.8 * ts\<rparr>
            in if e_shotTimer e1 > 90 then
                 Some (pushBullets [enemyShot (e_x e1) (e_y e1) 8 (- 1 * 1.5) 3 15,
                                    enemyShot (e_x e1) (e_y e1) 8 (0 * 1.5) 3 15,
                                    enemyShot (e_x e1) (e_y e1) 8 (1 * 1.5) 3 15]
                         (updEnemy ei (\<lambda>_. e1\<lparr>e_shotTimer := 0\<rparr>) s))
               else Some (updEnemy ei (\<lambda>_. e1) s))
         else if e_type e = Interceptor then
           (if e_patternTimer e < 60 then Some (updEnemy ei (\<lambda>_. e\<lparr>e_y := e_y e + 3 * ts\<rparr>) s)
            else
              (let e1 = (if e_vx e = 0 then e\<lparr>e_vx := (if p_x p > e_x e then 1 else - 1) * 4\<rparr> else e)
               in Some (updEnemy ei (\<lambda>_. e1\<lparr>e_x := e_x e1 + e_vx e1 * ts, e_y := e_y e1 + 4 * ts\<rparr>) s)))
         else if e_type e = Seeker then
           (let angle = atan2 (p_y p - e_y e) (p_x p - e_x e)
            in Some (updEnemy ei (\<lambda>_. e\<lparr>e_x := e_x e + cos angle * 3 * ts,
                                          e_y := e_y e + sin angle * 3 * ts\<rparr>) s))
         else if e_type e = Stealth then
           (let e1 = e\<lparr>e_y := e_y e + 1.5 * ts\<rparr>
            in if e_shotTimer e1 > 150
               then Some (pushBullets [enemyShot (e_x e1) (e_y e1) 6 0 5 20]
                            (updEnemy ei (\<lambda>_. e1\<lparr>e_shotTimer := 0\<rparr>) s))
               else Some (updEnemy ei (\<lambda>_. e1) s))
         else if e_type e = Illusion_clone then
           (let e1 = e\<lparr>e_y := e_y e + 2 * ts\<rparr>
            in Some (updEnemy ei (\<lambda>_. if e_y e1 > CANVAS_HEIGHT c then e1\<lparr>e_dead := True\<rparr> else e1) s))
         else if e_type e = Kamikaze then Some (kamikazeBranch c ei s)
         else if e_type e = Swarmer then
           (let e1 = e\<lparr>e_x := e_x e + sin (e_patternTimer e * 0.2) * 5 * ts\<rparr>;
                e2 = e1\<lparr>e_y := e_y e1 + 4 * ts\<rparr>
            in if e_shotTimer e2 > 60
               then Some (pushBullets [enemyShot (e_x e2) (e_y e2) 4 (- 3) 0 5,
                                       enemyShot (e_x e2) (e_y e2) 4 3 0 5]
                            (updEnemy ei (\<lambda>_. e2\<lparr>e_shotTimer := 0\<rparr>) s))
               else Some (updEnemy ei (\<lambda>_. e2) s))
         else if e_type e = Reflector
         then Some (updEnemy ei (\<lambda>_. reflectorToggle (e\<lparr>e_y := e_y e + 0.5 * ts\<rparr>)) s)
         else None)"

definition typeBranch :: "Config \<Rightarrow> nat \<Rightarrow> GameState \<Rightarrow> GameState option" where
  \<comment> \<open>the chain \<^verbatim>\<open>if (boss || boss_clone) ... else if ... else { standard mobs }\<close>;
      \<open>None\<close> where the branch (boss attacks, mini-boss fire) is not modelled\<close>
  "typeBranch c ei s =
     (let e = enemies s ! ei
      in if e_type e = Boss \<or> e_type e = Boss_clone then None
         else if e_type e = Alp_mini_boss then None
         else if e_type e = Alp_reflector
         then Some (updEnemy ei (\<lambda>_. reflectorToggle (e\<lparr>e_y := e_y e + 0.5 * timeScale s\<rparr>)) s)
         else if e_type e = Seraph_drone then Some (seraphDroneBranch ei s)
         else if e_type e = Oracle_minion then Some (oracleMinionBranch c ei s)
         else standardMob c ei s)"

definition checkBounds :: "Config \<Rightarrow> Enemy \<Rightarrow> Enemy" where
  \<comment> \<open>lines 1612-1617\<close>
  "checkBounds c e =
     (if e_type e \<noteq> Boss \<and> e_type e \<noteq> Boss_clone \<and> e_type e \<noteq> Drone then
        (if e_y e > CANVAS_HEIGHT c + 50 \<or> e_x e < - 50 \<or> e_x e > CANVAS_WIDTH c + 50
         then e\<lparr>e_dead := True\<rparr> else e)
      else if e_type e = Boss then
        (if e_y e > CANVAS_HEIGHT c + 300 then e\<lparr>e_dead := True\<rparr> else e)
      else e)"

definition enemyStep :: "Config \<Rightarrow> nat \<Rightarrow> GameState \<Rightarrow> GameState option" where
  \<comment> \<open>one call of the loop's callback; \<open>None\<close> when it enters code that is not modelled\<close>
  "enemyStep c ei s =
     (case enemyPrelude c ei s of
        (Returned, s1) \<Rightarrow> Some s1
      | (GhostLogic, s1) \<Rightarrow> None
      | (Dispatch, s1) \<Rightarrow> map_option (updEnemy ei (checkBounds c)) (typeBranch c ei s1))"

definition prune :: "GameState \<Rightarrow> GameState" where
  \<comment> \<open>lines 1981-1982: dead bullets and enemies leave their arrays at the end of the tick\<close>
  "prune s = s\<lparr>bullets := filter (\<lambda>b. \<not> b_dead b) (bullets s),
               enemies := filter (\<lambda>e. \<not> e_dead e) (enemies s)\<rparr>"

text \<open>
  A follower is orphaned when no enemy carries its parent id, or the first one that does is
  dead. The dependants of a boss are the kinds that the clean-up of line 1905 selects.
\<close>

definition orphaned :: "GameState \<Rightarrow> Enemy \<Rightarrow> bool" where
  "orphaned s e = (case findParent s e of None \<Rightarrow> True | Some parent \<Rightarrow> e_dead parent)"

definition isDependent :: "Enemy \<Rightarrow> bool" where
  "isDependent en =
     (e_type en = Boss_clone \<or> e_isGhost en \<or> e_type en = Alp_mini_boss
      \<or> e_type en = Alp_reflector \<or> e_type en = Seraph_drone)"

text \<open>
  The prelude run on the same enemy in \<open>n\<close> consecutive ticks, with the flow of each.
\<close>

fun preludeTicks :: "Config \<Rightarrow> nat \<Rightarrow> nat \<Rightarrow> GameState \<Rightarrow> Flow list \<times> GameState" where
  "preludeTicks c ei 0 s = ([], s)"
| "preludeTicks c ei (Suc n) s =
     (case enemyPrelude c ei s of (f, s1) \<Rightarrow>
        case preludeTicks c ei n s1 of (fs, s2) \<Rightarrow> (f # fs, s2))"

section \<open>Time scale, player speed, firing cadence, bullet advance\<close>

definition tickBuffs :: "(SpellCardId \<rightharpoonup> real) \<Rightarrow> (SpellCardId \<rightharpoonup> real)" where
  \<comment> \<open>lines 588-591: a positive buff loses one frame, any other entry is deleted\<close>
  "tickBuffs m = (\<lambda>k. case m k of None \<Rightarrow> None | Some v \<Rightarrow> if v > 0 then Some (v - 1) else None)"

definition updateTimeScale :: "GameState \<Rightarrow> GameState" where
  \<comment> \<open>lines 588-597\<close>
  "updateTimeScale s =
     (let p = (player s)\<lparr>p_activeBuffs := tickBuffs (p_activeBuffs (player s))\<rparr>
      in s\<lparr>player := p,
           timeScale := (if truthy (p_activeBuffs p TIME_DILATOR) then 0.2 else 1.0)\<rparr>)"

definition isOverclocked :: "GameState \<Rightarrow> bool" where
  \<comment> \<open>line 615\<close>
  "isOverclocked s = positive (p_activeBuffs (player s) OVERCLOCK)"

definition playerSpeed :: "GameState \<Rightarrow> real" where
  \<comment> \<open>lines 614-616\<close>
  "playerSpeed s =
     (if keys s ''ShiftLeft'' \<or> keys s ''ShiftRight'' then 2.5 else 5)
       * (if isOverclocked s then 2 else 1)"

definition baseFireRate :: "GameState \<Rightarrow> nat" where
  \<comment> \<open>lines 676-679\<close>
  "baseFireRate s =
     (if isOverclocked s then (if p_spellLevels (player s) OVERCLOCK \<ge> 3 then 2 else 3) else 6)"

definition advanceBullet :: "real \<Rightarrow> Bullet \<Rightarrow> Bullet" where
  \<comment> \<open>lines 1791-1794, with \<open>ts\<close> the current \<^verbatim>\<open>state.timeScale\<close>\<close>
  "advanceBullet ts b =
     (if b_weaponId b \<noteq> Some ORBITING_ORBS \<and> \<not> b_isSpawner b
      then b\<lparr>b_x := b_x b + b_vx b * (if b_owner b = OwnerEnemy then ts else 1),
             b_y := b_y b + b_vy b * (if b_owner b = OwnerEnemy then ts else 1)\<rparr>
      else b)"

section \<open>Player fire (lines 675-808)\<close>

text \<open>
  With a fire key held and the frame a multiple of the fire rate, the callback of
  \<^verbatim>\<open>equippedWeapons.forEach\<close> runs once per equipped weapon: it counts one shot, then the
  weapon's \<^verbatim>\<open>switch\<close> case pushes its bullets. \<^verbatim>\<open>isOverclocked\<close> is read at line 615;
  spell activation (lines 620-622), which lies between that line and the fire block, is not
  modelled.
\<close>

definition playerShot ::
  "WeaponId \<Rightarrow> real \<Rightarrow> real \<Rightarrow> real \<Rightarrow> real \<Rightarrow> real \<Rightarrow> real \<Rightarrow> real \<Rightarrow> Bullet" where
  \<comment> \<open>a player bullet \<^verbatim>\<open>{x, y, width, height, vx, vy, owner: 'player', damage, timer: 0, weaponId}\<close>\<close>
  "playerShot wId x y w h vx vy dmg = bulletLiteral OwnerPlayer (Some wId) x y w h vx vy dmg"

definition dmgMult :: "Config \<Rightarrow> real" where
  \<comment> \<open>lines 682-683\<close>
  "dmgMult c = (if ATTACK_UP \<in> activeBoosters c then 1.25 else 1.0) * damageMultiplier c"

definition needle :: "WeaponId \<Rightarrow> nat \<Rightarrow> real \<Rightarrow> real \<Rightarrow> nat \<Rightarrow> GameState \<Rightarrow> GameState" where
  \<comment> \<open>one round of the loop of \<^verbatim>\<open>HOMING_NEEDLES\<close> (lines 708-710)\<close>
  "needle wId count speedMult damage i s =
     (case random s of (r, s1) \<Rightarrow>
        pushBullets [playerShot wId (p_x (player s1) + (real i * 10 - real count * 5)) (p_y (player s1))
                       3 6 ((r - 0.5) * 4) (- 10 * speedMult) damage] s1)"

definition blade :: "WeaponId \<Rightarrow> real \<Rightarrow> nat \<Rightarrow> GameState \<Rightarrow> GameState" where
  \<comment> \<open>one round of the loop of \<^verbatim>\<open>PHASE_BLADES\<close> (lines 797-800)\<close>
  "blade wId damage i s =
     (case random s of (r1, s1) \<Rightarrow>
        case random s1 of (r2, s2) \<Rightarrow>
          pushBullets [playerShot wId (p_x (player s2) + (r1 - 0.5) * 40) (p_y (player s2))
                         8 8 ((r2 - 0.5) * 5) (- 10) damage] s2)"

definition fireWeapon :: "Config \<Rightarrow> WeaponId \<Rightarrow> GameState \<Rightarrow> GameState" where
  \<comment> \<open>the callback of \<^verbatim>\<open>equippedWeapons.forEach\<close> (lines 685-806)\<close>
  "fireWeapon c wId s0 =
     (let s = s0\<lparr>shotsFired := shotsFired s0 + 1\<rparr>;
          p = player s; lvl = p_weaponLevels p wId; m = dmgMult c
      in case wId of
           PLASMA_CUTTER \<Rightarrow>
             (let dmg = (if lvl \<ge> 2 then 13 else 10) * m
              in pushBullets
                   (playerShot wId (p_x p) (p_y p - 10) 4 12 0 (- 15) dmg #
                    (if lvl \<ge> 3
                     then [playerShot wId (p_x p - 8) (p_y p - 5) 3 10 (- 1) (- 15) dmg,
                           playerShot wId (p_x p + 8) (p_y p - 5) 3 10 1 (- 15) dmg]
                     else [])) s)
         | SPREAD_SHOTGUN \<Rightarrow>
             (let spreadCount = (if lvl \<ge> 3 then 3 else 2) :: int;
                  damage = (if lvl \<ge> 2 then 7 else 5) * m
              in pushBullets
                   (map (\<lambda>i. (playerShot wId (p_x p) (p_y p) 3 3 (of_int i * 2) (- 12) damage)
                                 \<lparr>b_piercing := (lvl \<ge> 3)\<rparr>)
                      [- spreadCount..spreadCount]) s)
         | HOMING_NEEDLES \<Rightarrow>
             (let speedMult = (if lvl \<ge> 2 then 1.5 else 1);
                  count = (if lvl \<ge> 3 then 4 else 2) :: nat
              in fold (needle wId count speedMult (4 * m)) [0..<count] s)
         | LASER_STREAM \<Rightarrow>
             (let w = (if lvl \<ge> 2 then 10 else 6);
                  d = (if lvl \<ge> 3 then 34 else 22.5) * m
              in pushBullets [(playerShot wId (p_x p) (p_y p - 10) w 40 0 (- 25) d)
                                \<lparr>b_piercing := True, b_hitList := Some []\<rparr>] s)
         | WAVE_MOTION \<Rightarrow>
             (let dmg = 13.5 * m
              in pushBullets
                   ((playerShot wId (p_x p) (p_y p) 8 8 0 (- 8) dmg)\<lparr>b_initialX := Some (p_x p)\<rparr> #
                    (if lvl \<ge> 3
                     then [(playerShot wId (p_x p) (p_y p) 8 8 0 (- 8) dmg)
                             \<lparr>b_initialX := Some (p_x p), b_splashRadius := Some 1\<rparr>]
                     else [])) s)
         | ROCKET_BARRAGE \<Rightarrow>
             (case random s of (r, s1) \<Rightarrow>
                pushBullets [(playerShot wId (p_x p) (p_y p) 8 12 ((r - 0.5) * 2) (- 4) (10 * m))
                               \<lparr>b_splashRadius := Some (if lvl \<ge> 2 then 90 else 60),
                                 b_chainCount := Some (if lvl \<ge> 3 then - 1 else 0)\<rparr>] s1)
         | CHAIN_LIGHTNING \<Rightarrow>
             (let dmg = (if lvl \<ge> 2 then 39 else 27) * m
              in pushBullets [(playerShot wId (p_x p) (p_y p) 4 10 0 (- 18) dmg)
                                \<lparr>b_chainCount := Some (if lvl \<ge> 3 then 8 else 4),
                                  b_orbitRadius := Some (if lvl \<ge> 2 then 2.0 else 1.2)\<rparr>] s)
         | BACK_TURRET \<Rightarrow>
             (let damage = (if lvl \<ge> 2 then 26 else 19) * m
              in pushBullets
                   (playerShot wId (p_x p) (p_y p + 10) 6 10 0 12 damage #
                    (if lvl \<ge> 3 then [playerShot wId (p_x p) (p_y p - 10) 6 10 0 (- 12) damage]
                     else [])) s)
         | VORTEX_DRIVER \<Rightarrow>
             (if frame s mod 53 = 0 then
                (case random s of (r, s1) \<Rightarrow>
                   (let targetY = 100 + r * 120;
                        dist = p_y p - targetY;
                        initialVy = - (dist * 0.042)
                    in pushBullets [(playerShot wId (p_x p) (p_y p) 12 12 0 initialVy (5 * m))
                                      \<lparr>b_isVortex := True,
                                        b_orbitRadius := Some (if lvl \<ge> 2 then 1.5 else 1),
                                        b_chainCount := Some (if lvl \<ge> 3 then 1 else 0)\<rparr>] s1))
              else s)
         | ORBITING_ORBS \<Rightarrow>
             (let existingOrbs = length (filter (\<lambda>b. b_owner b = OwnerPlayer
                                                  \<and> b_weaponId b = Some ORBITING_ORBS \<and> \<not> b_dead b)
                                           (bullets s));
                  maxOrbs = (if lvl = 1 then 2 else if lvl = 2 then 3 else 4) :: nat;
                  rad = (if lvl \<ge> 3 then 80 else 60);
                  speed = (if lvl \<ge> 2 then 0.3 else 0.15);
                  dmg = (if lvl \<ge> 2 then 20 else 15) * m
              in if existingOrbs < maxOrbs \<and> frame s mod 10 = 0
                 then pushBullets [(playerShot wId (p_x p) (p_y p) 10 10 0 0 dmg)
                                     \<lparr>b_orbitAngle := Some ((real existingOrbs * (360 / real maxOrbs))
                                                             * (pi / 180)),
                                       b_orbitRadius := Some rad, b_splashRadius := Some speed\<rparr>] s
                 else s)
         | GAUSS_CANNON \<Rightarrow>
             (if frame s mod 40 = 0
              then pushBullets [(playerShot wId (p_x p) (p_y p - 10) 5 30 0 (- 40) (800 * m))
                                  \<lparr>b_piercing := True,
                                    b_chainCount := Some (if lvl \<ge> 3 then 99
                                                          else if lvl \<ge> 2 then 3 else 1)\<rparr>] s
              else s)
         | PULSE_NOVA \<Rightarrow>
             (if frame s mod 50 = 0
              then (let sz = (if lvl \<ge> 3 then 60 else 30)
                    in pushBullets [(playerShot wId (p_x p) (p_y p) sz sz 0 (- 2) (100 * m))
                                      \<lparr>b_piercing := True,
                                        b_splashRadius := Some (if lvl \<ge> 2 then 10 else 20)\<rparr>] s)
              else s)
         | PHASE_BLADES \<Rightarrow>
             (if frame s mod 30 = 0
              then fold (blade wId (18 * m)) [0..<(if lvl \<ge> 2 then 3 else 2)] s
              else s))"

definition fire :: "Config \<Rightarrow> GameState \<Rightarrow> GameState" where
  \<comment> \<open>lines 675-808\<close>
  "fire c s =
     (if keys s ''KeyZ'' \<or> keys s ''Space'' then
        (if frame s mod baseFireRate s = 0
         then fold (fireWeapon c) (p_equippedWeapons (player s)) s
         else s)
      else s)"

text \<open>
  The descent of the standard mobs whose branch starts with a fixed step downwards.
\<close>

definition descentRate :: "EnemyType \<Rightarrow> real option" where
  \<comment> \<open>the factor \<open>k\<close> of the statement \<^verbatim>\<open>e.y += k * state.timeScale\<close> in lines 1597, 1598,
      1601, 1602, 1606 and 1609\<close>
  "descentRate t =
     (if t = Drone then Some 2 else if t = Tank then Some 0.8 else if t = Stealth then Some 1.5
      else if t = Illusion_clone then Some 2 else if t = Swarmer then Some 4
      else if t = Reflector then Some 0.5 else None)"

text \<open>
  The pair \<open>(bi, ei)\<close> reaches the damage line \<^verbatim>\<open>e.hp -= finalDamage\<close>: every guard of
  the inner loop lets it through and the target is not a clone. \<open>damaged\<close> is the world
  right after that line and the pulse burst that may follow it.
\<close>

definition appliesDamage :: "nat \<Rightarrow> nat \<Rightarrow> GameState \<Rightarrow> bool" where
  "appliesDamage bi ei s =
     (let b = bullets s ! bi; e = enemies s ! ei
      in \<not> e_dead e \<and> \<not> b_dead b \<and> \<not> inHitList b (e_id e) \<and> \<not> e_isGhost e
         \<and> \<not> ((e_type e = Reflector \<or> e_type e = Alp_reflector) \<and> e_isReflecting e
                \<and> distance (b_x b) (b_y b) (e_x e) (e_y e) < e_width e + b_width b + 10)
         \<and> \<not> (e_type e = Boss \<and> (e_variant e = Some Theta \<or> e_variant e = Some Alptraum)
                \<and> e_shieldActive e \<and> positive (e_shieldHp e)
                \<and> distance (b_x b) (b_y b) (e_x e) (e_y e) < 80)
         \<and> distance (b_x b) (b_y b) (e_x e) (e_y e) < e_width e + b_width b
         \<and> e_type e \<noteq> Boss_clone)"

definition damaged :: "Config \<Rightarrow> nat \<Rightarrow> nat \<Rightarrow> GameState \<Rightarrow> GameState" where
  "damaged c bi ei s =
     (let b = bullets s ! bi;
          e = enemies s ! ei;
          frozenBonus = (if positive (e_frozenTimer e) \<and> p_spellLevels (player s) STASIS_FIELD \<ge> 3
                               then 1.5 else 1.0);
          d0 = b_damage b * frozenBonus;
          finalDamage = (if positive (e_dmgReduction e) then d0 * (1 - the (e_dmgReduction e)) else d0);
          s1 = updEnemy ei (\<lambda>e. e\<lparr>e_hp := e_hp e - finalDamage\<rparr>) s
      in (if b_weaponId b = Some PULSE_NOVA \<and> jsRem (b_timer b) (orElse (b_splashRadius b) 20) = 0
                      then createExplosion c (b_x b) (b_y b) 60 (b_damage b / 2) s1 else s1))"


section \<open>Concrete worlds used to run the model\<close>

text \<open>
  A 600 by 800 arena (the size of the HUD overlay in the component's markup), standard
  difficulty, no boosters, no pity stacks, every level 1.
\<close>

definition config0 :: Config where
  "config0 = \<lparr>CANVAS_WIDTH = 600, CANVAS_HEIGHT = 800, difficultyProp = NORMAL,
     loadoutWeapons = [PLASMA_CUTTER], weaponLevelsProp = (\<lambda>w. 1), spellLevelsProp = (\<lambda>w. 1),
     activeBoosters = {}, pityStacks = 0, practiceMode = None\<rparr>"

definition state0 :: GameState where
  "state0 = initialState config0 (\<lambda>n. 0)"

text \<open>
  The range property of the player's hit points that the engine maintains: never above
  \<^verbatim>\<open>maxHp\<close>, and positive for as long as the run has not been ended.
\<close>

definition hpInRange :: "GameState \<Rightarrow> bool" where
  "hpInRange s = (p_hp (player s) \<le> p_maxHp (player s) \<and> (isGameOver s \<or> 0 < p_hp (player s)))"

text \<open>
  Once the run has been ended by a lethal hit, the hit points are at or below 0, no revive
  is banked and no shield is up.
\<close>

definition lostBelowZero :: "GameState \<Rightarrow> bool" where
  "lostBelowZero s =
     (if isGameOver s
      then p_hp (player s) \<le> 0 \<and> p_revives (player s) = 0 \<and> \<not> positive (p_shield (player s))
      else True)"

text \<open>
  A wounded player (no shield) who has not been hit for 700 frames, on frame 60, with an
  enemy bullet on them and a kamikaze ten units above.
\<close>

definition woundedWorld :: "real \<Rightarrow> nat \<Rightarrow> GameState" where
  "woundedWorld hp rv = state0\<lparr>
      player := (player state0)\<lparr>p_hp := hp, p_revives := rv, p_framesSinceLastHit := 700\<rparr>,
      bullets := [bulletLiteral OwnerEnemy None 300 700 5 5 0 2 10],
      enemies := [enemyLiteral ''k'' Kamikaze 300 690 10 20 150 0],
      frame := 60\<rparr>"

text \<open>
  Four small worlds around a player bullet: a rocket with a bystander in its splash, a pulse
  nova that has already struck \<open>a\<close>, a laser on a fresh target, and a chain bolt with
  two candidate targets.
\<close>

definition rocketWorld :: GameState where
  "rocketWorld = state0\<lparr>
      bullets := [(bulletLiteral OwnerPlayer (Some ROCKET_BARRAGE) 100 100 8 12 0 (- 4) 10)
                    \<lparr>b_splashRadius := Some 60, b_chainCount := Some 0\<rparr>],
      enemies := [enemyLiteral ''a'' Drone 100 100 12 15 100 0,
                  enemyLiteral ''b'' Drone 130 100 12 5 100 0]\<rparr>"

definition novaWorld :: GameState where
  "novaWorld = state0\<lparr>
      bullets := [(bulletLiteral OwnerPlayer (Some PULSE_NOVA) 100 100 30 30 0 (- 2) 100)
                    \<lparr>b_piercing := True, b_splashRadius := Some 20, b_timer := 20,
                      b_hitList := Some [''a'']\<rparr>],
      enemies := [enemyLiteral ''a'' Tank 100 100 22 500 600 0,
                  enemyLiteral ''b'' Tank 100 100 22 500 600 0]\<rparr>"

definition laserWorld :: GameState where
  "laserWorld = state0\<lparr>
      bullets := [(bulletLiteral OwnerPlayer (Some LASER_STREAM) 100 100 6 40 0 (- 25) 22.5)
                    \<lparr>b_piercing := True, b_hitList := Some []\<rparr>],
      enemies := [enemyLiteral ''a'' Tank 100 100 22 500 600 0]\<rparr>"

definition chainWorld :: GameState where
  "chainWorld = state0\<lparr>
      bullets := [(bulletLiteral OwnerPlayer (Some CHAIN_LIGHTNING) 100 300 4 10 0 (- 18) 27)
                    \<lparr>b_chainCount := Some 4, b_orbitRadius := Some 1.2\<rparr>],
      enemies := [enemyLiteral ''a'' Tank 100 300 22 500 600 0,
                  enemyLiteral ''b'' Tank 300 300 22 500 600 0,
                  enemyLiteral ''c'' Tank 100 310 22 500 600 0]\<rparr>"

text \<open>
  A boss of 10000 hit points at 4010, in phase 1, with one player bullet of damage 11 on
  it; and the same world after the phase logic and the projectile pass of one tick.
\<close>

definition bossWorld :: GameState where
  "bossWorld = state0\<lparr>
      bullets := [bulletLiteral OwnerPlayer (Some PLASMA_CUTTER) 300 100 4 12 0 (- 15) 11],
      enemies := [(enemyLiteral ''boss'' Boss 300 100 40 10000 5000 0)
                    \<lparr>e_hp := 4010, e_variant := Some Alpha, e_phase := Some 1,
                      e_fightStartFrame := Some 0, e_dmgReduction := Some 0,
                      e_dmgReductionTimer := Some 0\<rparr>],
      bossActive := True, boss := Some ''boss''\<rparr>"

definition bossWorldAfterTick :: GameState where
  "bossWorldAfterTick = playerBulletPass config0 (snd (enemyPrelude config0 0 bossWorld))"

text \<open>
  A theta boss at 5 hit points with two followers parented to it (an oracle minion and a
  seraph drone) and a player bullet on the boss; the world after that tick's projectile
  pass and pruning; a world holding one follower whose parent is gone; and the first world
  with the boss already at -5 hit points.
\<close>

definition thetaBoss :: Enemy where
  "thetaBoss = (enemyLiteral ''boss'' Boss 300 100 40 10000 5000 0)
       \<lparr>e_hp := 5, e_variant := Some Theta, e_phase := Some 2, e_fightStartFrame := Some 0,
         e_dmgReduction := Some 0, e_dmgReductionTimer := Some 0, e_shieldHp := Some 0\<rparr>"

definition follower :: "EnemyType \<Rightarrow> Enemy" where
  "follower t = (enemyLiteral ''follower'' t 300 180 12 300 500 0)
       \<lparr>e_variant := Some Alpha, e_parentId := Some ''boss'', e_orbitAngle := Some 0,
         e_orbitRadius := Some 80, e_orbitSpeed := Some 0.03\<rparr>"

definition thetaWorld :: GameState where
  "thetaWorld = state0\<lparr>
      bullets := [bulletLiteral OwnerPlayer (Some PLASMA_CUTTER) 300 100 4 12 0 (- 15) 10],
      enemies := [thetaBoss, follower Oracle_minion, follower Seraph_drone],
      bossActive := True, boss := Some ''boss''\<rparr>"

definition thetaWorldAfter :: GameState where
  "thetaWorldAfter = prune (playerBulletPass config0 thetaWorld)"

definition orphanWorld :: "EnemyType \<Rightarrow> GameState" where
  "orphanWorld t = state0\<lparr>enemies := [follower t]\<rparr>"

definition cascadeWorld :: GameState where
  "cascadeWorld = thetaWorld\<lparr>enemies := [thetaBoss\<lparr>e_hp := - 5\<rparr>, follower Oracle_minion,
                                          follower Seraph_drone]\<rparr>"


text \<open>
  A player with a gauss cannon and a shotgun who holds the fire key on frame 6; and a tank
  with the given shot timer in a world whose time-dilation buff has the given value when the
  tick's buff update runs.
\<close>

definition gaussWorld :: GameState where
  "gaussWorld = state0\<lparr>player := (player state0)\<lparr>p_equippedWeapons := [GAUSS_CANNON, SPREAD_SHOTGUN]\<rparr>,
                       keys := (\<lambda>k. k = ''KeyZ''), frame := 6\<rparr>"

definition tankWorld :: "real \<Rightarrow> real option \<Rightarrow> GameState" where
  "tankWorld st buff = updateTimeScale (state0\<lparr>
      player := (player state0)\<lparr>p_activeBuffs := (\<lambda>k. if k = TIME_DILATOR then buff else None)\<rparr>,
      enemies := [enemyLiteral ''tank'' Tank 300 100 20 100 200 st]\<rparr>)"

section \<open>Verified properties\<close>

subsection \<open>Helper lemmas\<close>

lemma distance_less_iff: "distance ax ay bx by < r \<longleftrightarrow> 0 < r \<and> (ax - bx)\<^sup>2 + (ay - by)\<^sup>2 < r\<^sup>2"
  unfolding distance_def
  by (metis abs_of_pos real_sqrt_abs real_sqrt_ge_zero real_sqrt_less_iff sum_power2_ge_zero order.strict_trans1) 

lemmas fixture_defs = state0_def config0_def initialState_def initialPlayer_def
      bulletLiteral_def enemyLiteral_def hpMultiplier_def

lemmas hit_defs = checkHit_def kamikazeHitsPlayer_def distance_less_iff positive_def
      incomingDamageMultiplier_def sessionStats_def createExplosion_def Let_def

lemma incoming_nonneg: "0 \<le> incomingDamageMultiplier c"
  by (simp add: incomingDamageMultiplier_def)

lemma fold_hpInRange:
  assumes "\<And>x s. hpInRange s \<Longrightarrow> hpInRange (f x s)" and "hpInRange s"
  shows "hpInRange (fold f xs s)"
  using assms(2) by (induction xs arbitrary: s) (simp_all add: assms(1))

lemma checkHit_hpInRange: "hpInRange s \<Longrightarrow> hpInRange (snd (checkHit c x y z s))"
  using incoming_nonneg[of c]
  by (auto simp add: hpInRange_def checkHit_def Let_def createExplosion_def)

lemma hpInRange_bullets: "hpInRange (t\<lparr>bullets := bs\<rparr>) = hpInRange t"
  by (simp add: hpInRange_def)

lemma hpInRange_enemies: "hpInRange (t\<lparr>enemies := es\<rparr>) = hpInRange t"
  by (simp add: hpInRange_def)

lemma enemyBulletVsPlayer_hpInRange: "hpInRange s \<Longrightarrow> hpInRange (enemyBulletVsPlayer c bi s)"
  by (simp add: enemyBulletVsPlayer_def Let_def case_prod_beta hpInRange_bullets checkHit_hpInRange
      split: option.splits)

lemma enemyBodyVsPlayer_hpInRange: "hpInRange s \<Longrightarrow> hpInRange (enemyBodyVsPlayer c ei s)"
  by (simp add: enemyBodyVsPlayer_def Let_def checkHit_hpInRange)

lemma playerCollisionPass_hpInRange: "hpInRange s \<Longrightarrow> hpInRange (playerCollisionPass c s)"
proof -
  assume h: "hpInRange s"
  show ?thesis
  proof (cases "p_invulnerableTime (player s) > 0")
    case True
    then show ?thesis using h by (simp add: playerCollisionPass_def hpInRange_def)
  next
    case False
    then show ?thesis
      by (simp add: playerCollisionPass_def Let_def fold_hpInRange h
          enemyBulletVsPlayer_hpInRange enemyBodyVsPlayer_hpInRange)
  qed
qed

lemma regen_hpInRange: "hpInRange s \<Longrightarrow> hpInRange (regen c s)"
  by (auto simp add: hpInRange_def regen_def Let_def)

lemma nanoRepair_hpInRange: "hpInRange s \<Longrightarrow> hpInRange (s\<lparr>player := nanoRepair lvl (player s)\<rparr>)"
  by (auto simp add: hpInRange_def nanoRepair_def Let_def min_def mult_pos_pos add_pos_pos)

lemma kamikazeHitsPlayer_hpInRange: "hpInRange s \<Longrightarrow> hpInRange (kamikazeHitsPlayer c s)"
  using incoming_nonneg[of c]
  by (auto simp add: hpInRange_def kamikazeHitsPlayer_def Let_def createExplosion_def)

lemma kamikazeBranch_hpInRange: "hpInRange s \<Longrightarrow> hpInRange (kamikazeBranch c ei s)"
proof -
  assume h: "hpInRange s"
  have c: "\<And>t x y r d. hpInRange t \<Longrightarrow> hpInRange (createExplosion c x y r d t)"
    by (simp add: hpInRange_def createExplosion_def)
  show ?thesis
    unfolding kamikazeBranch_def Let_def
    by (simp add: hpInRange_enemies kamikazeHitsPlayer_hpInRange c h)
qed

subsection \<open>Player hit points (C1)\<close>

lemma speed_small: "5 < sqrt a \<longleftrightarrow> 25 < a"
proof -
  have "sqrt 25 < sqrt a \<longleftrightarrow> 25 < a"
    by (rule real_sqrt_less_iff)
  moreover have "sqrt 25 = (5::real)"
    by (rule real_sqrt_unique) simp_all
  ultimately show ?thesis by simp
qed

lemma checkHit_lost: "lostBelowZero s \<Longrightarrow> lostBelowZero (snd (checkHit c x y z s))"
  using incoming_nonneg[of c]
  by (auto simp add: lostBelowZero_def checkHit_def Let_def createExplosion_def positive_def
        split: if_splits)

lemma fold_lost:
  assumes "\<And>x s. lostBelowZero s \<Longrightarrow> lostBelowZero (f x s)" and "lostBelowZero s"
  shows "lostBelowZero (fold f xs s)"
  using assms(2) by (induction xs arbitrary: s) (simp_all add: assms(1))

lemma lost_bullets: "lostBelowZero (t\<lparr>bullets := bs\<rparr>) = lostBelowZero t"
  by (simp add: lostBelowZero_def)

lemma lost_enemies: "lostBelowZero (t\<lparr>enemies := es\<rparr>) = lostBelowZero t"
  by (simp add: lostBelowZero_def)

lemma enemyBulletVsPlayer_lost: "lostBelowZero s \<Longrightarrow> lostBelowZero (enemyBulletVsPlayer c bi s)"
  by (simp add: enemyBulletVsPlayer_def Let_def case_prod_beta lost_bullets checkHit_lost
      split: option.splits)

lemma enemyBodyVsPlayer_lost: "lostBelowZero s \<Longrightarrow> lostBelowZero (enemyBodyVsPlayer c ei s)"
  by (simp add: enemyBodyVsPlayer_def Let_def checkHit_lost)

lemma playerCollisionPass_lost:
  assumes h: "lostBelowZero s"
  shows "lostBelowZero (playerCollisionPass c s)"
proof (cases "p_invulnerableTime (player s) > 0")
  case True
  then show ?thesis using h by (simp add: playerCollisionPass_def lostBelowZero_def)
next
  case False
  then show ?thesis
    by (simp add: playerCollisionPass_def Let_def fold_lost h
        enemyBulletVsPlayer_lost enemyBodyVsPlayer_lost)
qed

lemma kamikazeHitsPlayer_lost: "lostBelowZero s \<Longrightarrow> lostBelowZero (kamikazeHitsPlayer c s)"
  using incoming_nonneg[of c]
  by (auto simp add: lostBelowZero_def kamikazeHitsPlayer_def Let_def createExplosion_def
        positive_def split: if_splits)

lemma kamikazeBranch_lost:
  assumes h: "lostBelowZero s"
  shows "lostBelowZero (kamikazeBranch c ei s)"
proof -
  have c: "\<And>t x y r d. lostBelowZero t \<Longrightarrow> lostBelowZero (createExplosion c x y r d t)"
    by (simp add: lostBelowZero_def createExplosion_def)
  show ?thesis
    unfolding kamikazeBranch_def Let_def
    by (simp add: lost_enemies kamikazeHitsPlayer_lost c h)
qed

lemma lost_start: "\<not> isGameOver s \<Longrightarrow> lostBelowZero s"
  by (simp add: lostBelowZero_def)

lemma lost_end: "lostBelowZero s \<Longrightarrow> isGameOver s \<Longrightarrow> p_hp (player s) \<le> 0"
  by (simp add: lostBelowZero_def)

lemma checkHit_lethal:
  assumes "distance x y (p_x (player s)) (p_y (player s)) < sz + 4"
      "\<not> positive (p_shield (player s))"
      "p_hp (player s) - 20 * incomingDamageMultiplier c \<le> 0" "p_revives (player s) = 0"
  shows "p_hp (player (snd (checkHit c x y sz s))) = p_hp (player s) - 20 * incomingDamageMultiplier c
       \<and> isGameOver (snd (checkHit c x y sz s))"
  using assms by (simp add: checkHit_def Let_def)

lemma kamikaze_lethal:
  assumes "p_invulnerableTime (player s) \<le> 0"
      "\<not> positive (p_shield (player s))"
      "p_hp (player s) - 30 * incomingDamageMultiplier c \<le> 0" "p_revives (player s) = 0"
  shows "p_hp (player (kamikazeHitsPlayer c s)) = p_hp (player s) - 30 * incomingDamageMultiplier c
       \<and> isGameOver (kamikazeHitsPlayer c s)"
  using assms by (simp add: kamikazeHitsPlayer_def Let_def)

text \<open>
  Claim C1, as amended. Every write of the player's hit points keeps them at or below
  \<^verbatim>\<open>maxHp\<close>, and keeps them positive unless the run has been ended: the regeneration
  step, the repair spell, the kamikaze branch of the enemy loop and the whole player-side
  collision pass preserve \<open>hpInRange\<close>. When the collision pass or the kamikaze branch
  ends the run, the hit points are at or below 0 afterwards; and the lethal hit itself (no
  shield, no revive) leaves them at exactly the old value minus the damage: nothing clamps
  them to 0 (the HUD clamps only what it displays).
\<close>

theorem C1_hp_bounds:
  assumes "hpInRange s"
  shows "hpInRange (regen c s)
       \<and> hpInRange (s\<lparr>player := nanoRepair lvl (player s)\<rparr>)
       \<and> hpInRange (kamikazeBranch c ei s)
       \<and> hpInRange (playerCollisionPass c s)
       \<and> (\<not> isGameOver s \<and> isGameOver (playerCollisionPass c s)
            \<longrightarrow> p_hp (player (playerCollisionPass c s)) \<le> 0)
       \<and> (\<not> isGameOver s \<and> isGameOver (kamikazeBranch c ei s)
            \<longrightarrow> p_hp (player (kamikazeBranch c ei s)) \<le> 0)
       \<and> (distance x y (p_x (player s)) (p_y (player s)) < sz + 4
            \<and> \<not> positive (p_shield (player s))
            \<and> p_hp (player s) - 20 * incomingDamageMultiplier c \<le> 0 \<and> p_revives (player s) = 0
            \<longrightarrow> p_hp (player (snd (checkHit c x y sz s)))
                  = p_hp (player s) - 20 * incomingDamageMultiplier c
                \<and> isGameOver (snd (checkHit c x y sz s)))
       \<and> (p_invulnerableTime (player s) \<le> 0
            \<and> \<not> positive (p_shield (player s))
            \<and> p_hp (player s) - 30 * incomingDamageMultiplier c \<le> 0 \<and> p_revives (player s) = 0
            \<longrightarrow> p_hp (player (kamikazeHitsPlayer c s))
                  = p_hp (player s) - 30 * incomingDamageMultiplier c
                \<and> isGameOver (kamikazeHitsPlayer c s))"
  using assms regen_hpInRange [where s = s and c = c] nanoRepair_hpInRange [where s = s and lvl = lvl]
    kamikazeBranch_hpInRange [where s = s and c = c and ei = ei]
    playerCollisionPass_hpInRange [where s = s and c = c]
    lost_end [OF playerCollisionPass_lost [OF lost_start, where s = s and c = c]]
    lost_end [OF kamikazeBranch_lost [OF lost_start, where s = s and c = c and ei = ei]]
    checkHit_lethal [where s = s and c = c and x = x and y = y and sz = sz]
    kamikaze_lethal [where s = s and c = c]
  by blast

text \<open>
  Claim C1 as stated fails: a player at 10 hit points, without shield and without revive,
  touched by one enemy bullet, ends the collision pass at -10 hit points.
\<close>

theorem C1_counterexample:
  "p_hp (player (playerCollisionPass config0
      (state0\<lparr>player := (player state0)\<lparr>p_hp := 10\<rparr>,
              bullets := [bulletLiteral OwnerEnemy None 300 700 5 5 0 2 10]\<rparr>))) = -10"
  by (simp add: playerCollisionPass_def fixture_defs enemyBulletVsPlayer_def checkHit_def distance_less_iff positive_def
      incomingDamageMultiplier_def sessionStats_def Let_def)

lemmas c1_defs = woundedWorld_def fixture_defs playerCollisionPass_def enemyBulletVsPlayer_def
  enemyBodyVsPlayer_def kamikazeBranch_def regen_def nanoRepair_def hpInRange_def
  explode_def damageMultiplier_def atan2_def speed_small

theorem C1_hp_bounds_witness:
  "hpInRange (woundedWorld 50 0)
   \<and> p_hp (player (regen config0 (woundedWorld 50 0))) = 51
   \<and> hpInRange (regen config0 (woundedWorld 50 0))
   \<and> p_hp (nanoRepair 3 (player (woundedWorld 50 0))) = 100
   \<and> hpInRange ((woundedWorld 50 0)\<lparr>player := nanoRepair 3 (player (woundedWorld 50 0))\<rparr>)
   \<and> p_hp (player (kamikazeBranch config0 0 (woundedWorld 50 0))) = 20
   \<and> hpInRange (kamikazeBranch config0 0 (woundedWorld 50 0))
   \<and> p_hp (player (playerCollisionPass config0 (woundedWorld 50 0))) = 10
   \<and> hpInRange (playerCollisionPass config0 (woundedWorld 50 0))
   \<and> hpInRange (woundedWorld 10 1)
   \<and> p_hp (player (playerCollisionPass config0 (woundedWorld 10 1))) = 80
   \<and> p_revives (player (playerCollisionPass config0 (woundedWorld 10 1))) = 0
   \<and> hpInRange (playerCollisionPass config0 (woundedWorld 10 1))
   \<and> p_hp (player (kamikazeBranch config0 0 (woundedWorld 10 1))) = 100
   \<and> hpInRange (kamikazeBranch config0 0 (woundedWorld 10 1))
   \<and> hpInRange (woundedWorld 10 0)
   \<and> \<not> isGameOver (woundedWorld 10 0)
   \<and> isGameOver (playerCollisionPass config0 (woundedWorld 10 0))
   \<and> isGameOver (kamikazeBranch config0 0 (woundedWorld 10 0))
   \<and> p_hp (player (playerCollisionPass config0 (woundedWorld 10 0))) \<le> 0
   \<and> p_hp (player (kamikazeBranch config0 0 (woundedWorld 10 0))) \<le> 0
   \<and> p_hp (player (woundedWorld 10 0)) - 20 * incomingDamageMultiplier config0 = - 10
   \<and> p_hp (player (snd (checkHit config0 300 700 5 (woundedWorld 10 0))))
       = p_hp (player (woundedWorld 10 0)) - 20 * incomingDamageMultiplier config0
   \<and> isGameOver (snd (checkHit config0 300 700 5 (woundedWorld 10 0)))
   \<and> p_hp (player (woundedWorld 10 0)) - 30 * incomingDamageMultiplier config0 = - 20
   \<and> p_hp (player (kamikazeHitsPlayer config0 (woundedWorld 10 0)))
       = p_hp (player (woundedWorld 10 0)) - 30 * incomingDamageMultiplier config0
   \<and> isGameOver (kamikazeHitsPlayer config0 (woundedWorld 10 0))"
proof -
  have r: "hpInRange (woundedWorld 50 0) \<and> hpInRange (woundedWorld 10 1)
           \<and> hpInRange (woundedWorld 10 0) \<and> \<not> isGameOver (woundedWorld 10 0)"
    by (simp add: woundedWorld_def fixture_defs hpInRange_def)
  have v1: "p_hp (player (regen config0 (woundedWorld 50 0))) = 51
            \<and> p_hp (nanoRepair 3 (player (woundedWorld 50 0))) = 100"
    by (simp add: c1_defs Let_def)
  have v2a: "p_hp (player (kamikazeBranch config0 0 (woundedWorld 50 0))) = 20"
    by (simp add: c1_defs hit_defs power2_eq_square)
  have v2b: "p_hp (player (kamikazeBranch config0 0 (woundedWorld 10 1))) = 100"
    by (simp add: c1_defs hit_defs power2_eq_square)
  have v2c: "isGameOver (kamikazeBranch config0 0 (woundedWorld 10 0))"
    by (simp add: c1_defs hit_defs power2_eq_square)
  have v3a: "p_hp (player (playerCollisionPass config0 (woundedWorld 50 0))) = 10"
    by (simp add: c1_defs hit_defs)
  have v3b: "p_hp (player (playerCollisionPass config0 (woundedWorld 10 1))) = 80
            \<and> p_revives (player (playerCollisionPass config0 (woundedWorld 10 1))) = 0"
    by (simp add: c1_defs hit_defs)
  have v3c: "isGameOver (playerCollisionPass config0 (woundedWorld 10 0))"
    by (simp add: c1_defs hit_defs)
  have h1: "distance 300 700 (p_x (player (woundedWorld 10 0))) (p_y (player (woundedWorld 10 0))) < 5 + 4"
    by (simp add: woundedWorld_def fixture_defs hit_defs)
  have h2: "\<not> positive (p_shield (player (woundedWorld 10 0)))"
    by (simp add: woundedWorld_def fixture_defs hit_defs)
  have h3: "p_hp (player (woundedWorld 10 0)) - 20 * incomingDamageMultiplier config0 = - 10"
    by (simp add: woundedWorld_def fixture_defs hit_defs)
  have h4: "p_hp (player (woundedWorld 10 0)) - 30 * incomingDamageMultiplier config0 = - 20"
    by (simp add: woundedWorld_def fixture_defs hit_defs)
  have h5: "p_revives (player (woundedWorld 10 0)) = 0"
    by (simp add: woundedWorld_def fixture_defs hit_defs)
  have h6: "p_invulnerableTime (player (woundedWorld 10 0)) \<le> 0"
    by (simp add: woundedWorld_def fixture_defs hit_defs)
  have h3': "p_hp (player (woundedWorld 10 0)) - 20 * incomingDamageMultiplier config0 \<le> 0"
    using h3 by simp
  have h4': "p_hp (player (woundedWorld 10 0)) - 30 * incomingDamageMultiplier config0 \<le> 0"
    using h4 by simp
  have r1: "hpInRange (woundedWorld 50 0)" and r2: "hpInRange (woundedWorld 10 1)"
    and r3: "hpInRange (woundedWorld 10 0)" and r4: "\<not> isGameOver (woundedWorld 10 0)"
    using r by simp_all
  note t1 = C1_hp_bounds [OF r1, where c = config0 and lvl = 3 and ei = 0
      and x = 300 and y = 700 and sz = 5]
  note t2 = C1_hp_bounds [OF r2, where c = config0 and lvl = 3 and ei = 0
      and x = 300 and y = 700 and sz = 5]
  note t3 = C1_hp_bounds [OF r3, where c = config0 and lvl = 3 and ei = 0
      and x = 300 and y = 700 and sz = 5]
  have a1: "hpInRange (regen config0 (woundedWorld 50 0))
       \<and> hpInRange ((woundedWorld 50 0)\<lparr>player := nanoRepair 3 (player (woundedWorld 50 0))\<rparr>)
       \<and> hpInRange (kamikazeBranch config0 0 (woundedWorld 50 0))
       \<and> hpInRange (playerCollisionPass config0 (woundedWorld 50 0))"
    using t1 by blast
  have a2: "hpInRange (kamikazeBranch config0 0 (woundedWorld 10 1))
       \<and> hpInRange (playerCollisionPass config0 (woundedWorld 10 1))"
    using t2 by blast
  have a3: "p_hp (player (playerCollisionPass config0 (woundedWorld 10 0))) \<le> 0
       \<and> p_hp (player (kamikazeBranch config0 0 (woundedWorld 10 0))) \<le> 0"
    using t3 r4 v2c v3c by blast
  have a4: "p_hp (player (snd (checkHit config0 300 700 5 (woundedWorld 10 0))))
              = p_hp (player (woundedWorld 10 0)) - 20 * incomingDamageMultiplier config0
            \<and> isGameOver (snd (checkHit config0 300 700 5 (woundedWorld 10 0)))"
    using t3 h1 h2 h3' h5 by blast
  have a5: "p_hp (player (kamikazeHitsPlayer config0 (woundedWorld 10 0)))
              = p_hp (player (woundedWorld 10 0)) - 30 * incomingDamageMultiplier config0
            \<and> isGameOver (kamikazeHitsPlayer config0 (woundedWorld 10 0))"
    using t3 h6 h2 h4' h5 by blast
  show ?thesis
    using r1 r2 r3 r4 v1 v2a v2b v2c v3a v3b v3c h3 h4 a1 a2 a3 a4 a5 by blast
qed


subsection \<open>Shield, hit points, revive, loss (C9)\<close>

text \<open>
  Claim C9. When a hit lands on the player (\<^verbatim>\<open>checkHit\<close> within range, or a kamikaze
  blast while not invulnerable): a positive shield pool takes the damage and the hit points
  are untouched; otherwise the hit points drop by the damage; when that brings them to 0 or
  below, a banked revive is consumed (hit points back to \<^verbatim>\<open>maxHp\<close>, 120 frames of
  invulnerability, no outcome event), and without a revive the run is ended and one loss
  event is emitted.
\<close>

theorem C9_shield_then_hp_then_revive:
  assumes hit: "distance ex ey (p_x (player s)) (p_y (player s)) < sz + 4"
      and blast: "p_invulnerableTime (player s) \<le> 0"
  shows "(positive (p_shield (player s)) \<longrightarrow>
            p_hp (player (snd (checkHit c ex ey sz s))) = p_hp (player s)
          \<and> p_shield (player (snd (checkHit c ex ey sz s)))
              = Some (the (p_shield (player s)) - 20 * incomingDamageMultiplier c)
          \<and> p_revives (player (snd (checkHit c ex ey sz s))) = p_revives (player s)
          \<and> events (snd (checkHit c ex ey sz s)) = events s
          \<and> isGameOver (snd (checkHit c ex ey sz s)) = isGameOver s
          \<and> p_hp (player (kamikazeHitsPlayer c s)) = p_hp (player s)
          \<and> p_shield (player (kamikazeHitsPlayer c s))
              = Some (the (p_shield (player s)) - 30 * incomingDamageMultiplier c)
          \<and> p_revives (player (kamikazeHitsPlayer c s)) = p_revives (player s)
          \<and> events (kamikazeHitsPlayer c s) = events s
          \<and> isGameOver (kamikazeHitsPlayer c s) = isGameOver s)
       \<and> (\<not> positive (p_shield (player s)) \<and> 0 < p_hp (player s) - 20 * incomingDamageMultiplier c \<longrightarrow>
            p_hp (player (snd (checkHit c ex ey sz s))) = p_hp (player s) - 20 * incomingDamageMultiplier c
          \<and> p_shield (player (snd (checkHit c ex ey sz s))) = p_shield (player s)
          \<and> p_revives (player (snd (checkHit c ex ey sz s))) = p_revives (player s)
          \<and> events (snd (checkHit c ex ey sz s)) = events s
          \<and> isGameOver (snd (checkHit c ex ey sz s)) = isGameOver s)
       \<and> (\<not> positive (p_shield (player s)) \<and> 0 < p_hp (player s) - 30 * incomingDamageMultiplier c \<longrightarrow>
            p_hp (player (kamikazeHitsPlayer c s)) = p_hp (player s) - 30 * incomingDamageMultiplier c
          \<and> p_shield (player (kamikazeHitsPlayer c s)) = p_shield (player s)
          \<and> p_revives (player (kamikazeHitsPlayer c s)) = p_revives (player s)
          \<and> events (kamikazeHitsPlayer c s) = events s
          \<and> isGameOver (kamikazeHitsPlayer c s) = isGameOver s)
       \<and> (\<not> positive (p_shield (player s)) \<and> p_hp (player s) - 20 * incomingDamageMultiplier c \<le> 0
            \<and> 0 < p_revives (player s) \<longrightarrow>
            p_hp (player (snd (checkHit c ex ey sz s))) = p_maxHp (player s)
          \<and> p_revives (player (snd (checkHit c ex ey sz s))) = p_revives (player s) - 1
          \<and> p_invulnerableTime (player (snd (checkHit c ex ey sz s))) = 120
          \<and> events (snd (checkHit c ex ey sz s)) = events s
          \<and> isGameOver (snd (checkHit c ex ey sz s)) = isGameOver s)
       \<and> (\<not> positive (p_shield (player s)) \<and> p_hp (player s) - 30 * incomingDamageMultiplier c \<le> 0
            \<and> 0 < p_revives (player s) \<longrightarrow>
            p_hp (player (kamikazeHitsPlayer c s)) = p_maxHp (player s)
          \<and> p_revives (player (kamikazeHitsPlayer c s)) = p_revives (player s) - 1
          \<and> p_invulnerableTime (player (kamikazeHitsPlayer c s)) = 120
          \<and> events (kamikazeHitsPlayer c s) = events s
          \<and> isGameOver (kamikazeHitsPlayer c s) = isGameOver s)
       \<and> (\<not> positive (p_shield (player s)) \<and> p_hp (player s) - 20 * incomingDamageMultiplier c \<le> 0
            \<and> p_revives (player s) = 0 \<longrightarrow>
            isGameOver (snd (checkHit c ex ey sz s))
          \<and> events (snd (checkHit c ex ey sz s))
              = events s @ [OnGameOver (score s) False (dataFragments s) (sessionStats s)])
       \<and> (\<not> positive (p_shield (player s)) \<and> p_hp (player s) - 30 * incomingDamageMultiplier c \<le> 0
            \<and> p_revives (player s) = 0 \<longrightarrow>
            isGameOver (kamikazeHitsPlayer c s)
          \<and> events (kamikazeHitsPlayer c s)
              = events s @ [OnGameOver (score s) False (dataFragments s) (sessionStats s)])"
proof -
  have a: "positive (p_shield (player s)) \<longrightarrow>
            p_hp (player (snd (checkHit c ex ey sz s))) = p_hp (player s)
          \<and> p_shield (player (snd (checkHit c ex ey sz s)))
              = Some (the (p_shield (player s)) - 20 * incomingDamageMultiplier c)
          \<and> p_revives (player (snd (checkHit c ex ey sz s))) = p_revives (player s)
          \<and> events (snd (checkHit c ex ey sz s)) = events s
          \<and> isGameOver (snd (checkHit c ex ey sz s)) = isGameOver s"
    using hit by (simp add: checkHit_def Let_def createExplosion_def)
  have b: "positive (p_shield (player s)) \<longrightarrow>
            p_hp (player (kamikazeHitsPlayer c s)) = p_hp (player s)
          \<and> p_shield (player (kamikazeHitsPlayer c s))
              = Some (the (p_shield (player s)) - 30 * incomingDamageMultiplier c)
          \<and> p_revives (player (kamikazeHitsPlayer c s)) = p_revives (player s)
          \<and> events (kamikazeHitsPlayer c s) = events s
          \<and> isGameOver (kamikazeHitsPlayer c s) = isGameOver s"
    using blast by (simp add: kamikazeHitsPlayer_def Let_def)
  have c1: "\<not> positive (p_shield (player s)) \<longrightarrow>
           snd (checkHit c ex ey sz s) =
             (let p1 = (player s)\<lparr>p_hp := p_hp (player s) - 20 * incomingDamageMultiplier c,
                                   p_framesSinceLastHit := 0\<rparr>
              in if p_hp p1 \<le> 0 then
                   (if p_revives p1 > 0 then
                      createExplosion c (p_x p1) (p_y p1) 200 500
                        (s\<lparr>player := p1\<lparr>p_revives := p_revives p1 - 1, p_hp := p_maxHp p1,
                                         p_invulnerableTime := 120\<rparr>\<rparr>)
                    else s\<lparr>player := p1, isGameOver := True,
                           events := events s @ [OnGameOver (score s) False (dataFragments s) (sessionStats s)]\<rparr>)
                 else s\<lparr>player := p1\<lparr>p_invulnerableTime := 60\<rparr>\<rparr>)"
    using hit by (simp add: checkHit_def Let_def)
  have c2: "\<not> positive (p_shield (player s)) \<longrightarrow>
           kamikazeHitsPlayer c s =
             (let p1 = (player s)\<lparr>p_hp := p_hp (player s) - 30 * incomingDamageMultiplier c,
                                   p_framesSinceLastHit := 0, p_invulnerableTime := 60\<rparr>
              in if p_hp p1 \<le> 0 then
                   (if p_revives p1 > 0 then
                      createExplosion c (p_x p1) (p_y p1) 200 500
                        (s\<lparr>player := p1\<lparr>p_revives := p_revives p1 - 1, p_hp := p_maxHp p1,
                                         p_invulnerableTime := 120\<rparr>\<rparr>)
                    else s\<lparr>player := p1, isGameOver := True,
                           events := events s @ [OnGameOver (score s) False (dataFragments s) (sessionStats s)]\<rparr>)
                 else s\<lparr>player := p1\<rparr>)"
    using blast by (simp add: kamikazeHitsPlayer_def Let_def)
  show ?thesis
    using a b c1 c2 by (simp add: Let_def createExplosion_def)
qed

theorem C9_shield_then_hp_then_revive_witness:
  "distance 300 700 (p_x (player state0)) (p_y (player state0)) < 5 + 4
   \<and> p_invulnerableTime (player state0) \<le> 0
   \<and> positive (p_shield (player (state0\<lparr>player := (player state0)\<lparr>p_shield := Some 50\<rparr>\<rparr>)))
   \<and> p_hp (player (snd (checkHit config0 300 700 5
          (state0\<lparr>player := (player state0)\<lparr>p_shield := Some 50\<rparr>\<rparr>)))) = 100
   \<and> p_shield (player (snd (checkHit config0 300 700 5
          (state0\<lparr>player := (player state0)\<lparr>p_shield := Some 50\<rparr>\<rparr>)))) = Some 30
   \<and> p_shield (player (kamikazeHitsPlayer config0
          (state0\<lparr>player := (player state0)\<lparr>p_shield := Some 50\<rparr>\<rparr>))) = Some 20
   \<and> \<not> positive (p_shield (player state0))
   \<and> p_hp (player (snd (checkHit config0 300 700 5 state0))) = 80
   \<and> p_hp (player (kamikazeHitsPlayer config0 state0)) = 70
   \<and> p_hp (player (snd (checkHit config0 300 700 5
          (state0\<lparr>player := (player state0)\<lparr>p_hp := 20, p_revives := 1\<rparr>\<rparr>)))) = 100
   \<and> p_revives (player (snd (checkHit config0 300 700 5
          (state0\<lparr>player := (player state0)\<lparr>p_hp := 20, p_revives := 1\<rparr>\<rparr>)))) = 0
   \<and> p_hp (player (kamikazeHitsPlayer config0
          (state0\<lparr>player := (player state0)\<lparr>p_hp := 20, p_revives := 1\<rparr>\<rparr>))) = 100
   \<and> isGameOver (snd (checkHit config0 300 700 5
          (state0\<lparr>player := (player state0)\<lparr>p_hp := 20\<rparr>\<rparr>)))
   \<and> events (snd (checkHit config0 300 700 5
          (state0\<lparr>player := (player state0)\<lparr>p_hp := 20\<rparr>\<rparr>)))
       = [OnGameOver 0 False 0 (Some (0, 0, 0, 1))]
   \<and> events (kamikazeHitsPlayer config0
          (state0\<lparr>player := (player state0)\<lparr>p_hp := 20\<rparr>\<rparr>))
       = [OnGameOver 0 False 0 (Some (0, 0, 0, 1))]"
  using C9_shield_then_hp_then_revive [of 300 700 "state0\<lparr>player := (player state0)\<lparr>p_shield := Some 50\<rparr>\<rparr>" 5 config0]
        C9_shield_then_hp_then_revive [of 300 700 state0 5 config0]
        C9_shield_then_hp_then_revive [of 300 700 "state0\<lparr>player := (player state0)\<lparr>p_hp := 20, p_revives := 1\<rparr>\<rparr>" 5 config0]
        C9_shield_then_hp_then_revive [of 300 700 "state0\<lparr>player := (player state0)\<lparr>p_hp := 20\<rparr>\<rparr>" 5 config0]
  by (simp add: fixture_defs distance_less_iff positive_def incomingDamageMultiplier_def sessionStats_def)

subsection \<open>One outcome event per run (C2)\<close>

text \<open>
  Claim C2 against the code. \<^verbatim>\<open>checkHit\<close> sets \<^verbatim>\<open>isGameOver\<close> and calls
  \<^verbatim>\<open>onGameOver\<close> on a lethal hit, but neither it nor the two loops that call it read
  the flag or the invulnerability timer again inside the tick: with two enemy bullets on a
  player at 20 hit points (no shield, no revive) the pass calls \<^verbatim>\<open>onGameOver\<close> twice.
\<close>

theorem C2_two_lethal_hits_two_events:
  "events (playerCollisionPass config0
     (state0\<lparr>player := (player state0)\<lparr>p_hp := 20\<rparr>,
             bullets := [bulletLiteral OwnerEnemy None 300 700 5 5 0 2 10,
                         bulletLiteral OwnerEnemy None 300 700 5 5 0 2 10]\<rparr>))
   = [OnGameOver 0 False 0 (Some (0, 0, 0, 1)), OnGameOver 0 False 0 (Some (0, 0, 0, 1))]"
  by (simp add: playerCollisionPass_def fixture_defs enemyBulletVsPlayer_def hit_defs)

subsection \<open>Player projectiles against enemies: helper lemmas\<close>

lemmas collide_defs = playerBulletPass_def playerBulletVsEnemies_def resolvePair_def directHit_def
  onHitPayout_def splashPayout_def chainPayout_def piercePayout_def deathPayout_def bossDefeated_def
  bossCascade_def updBullet_def updEnemy_def inHitList_def hitListOf_def chainNextTarget_def
  createExplosion_def explode_def damageMultiplier_def truthy_def positive_def orElse_def
  random_def lootMult_def distance_less_iff sessionStats_def Let_def

lemmas world_defs = rocketWorld_def novaWorld_def laserWorld_def chainWorld_def fixture_defs

lemma bullets_createExplosion: "bullets (createExplosion c x y r d s) = bullets s"
  by (simp add: createExplosion_def)

lemma bullets_updEnemy: "bullets (updEnemy ei f s) = bullets s"
  by (simp add: updEnemy_def)

lemma bullets_updBullet: "bullets (updBullet bi f s) = (bullets s)[bi := f (bullets s ! bi)]"
  by (simp add: updBullet_def)


lemma bullets_bossDefeated: "bullets (bossDefeated c s) = bullets s"
  by (simp add: bossDefeated_def Let_def)

lemma bullets_deathPayout: "bullets (deathPayout c bi ei s) = bullets s"
  by (simp add: deathPayout_def Let_def random_def bullets_bossDefeated bullets_createExplosion
      updEnemy_def)


lemma resolvePair_appliesDamage:
  assumes "appliesDamage bi ei s"
  shows "resolvePair c bi ei s = deathPayout c bi ei (onHitPayout c bi ei (damaged c bi ei s))"
proof -
  let ?b = "bullets s ! bi" and ?e = "enemies s ! ei"
  have g1: "(e_dead ?e \<or> b_dead ?b) = False"
    using assms by (simp add: appliesDamage_def Let_def)
  have g2: "inHitList ?b (e_id ?e) = False"
    using assms by (simp add: appliesDamage_def Let_def)
  have g3: "e_isGhost ?e = False"
    using assms by (simp add: appliesDamage_def Let_def)
  have g4: "((e_type ?e = Reflector \<or> e_type ?e = Alp_reflector) \<and> e_isReflecting ?e
             \<and> distance (b_x ?b) (b_y ?b) (e_x ?e) (e_y ?e) < e_width ?e + b_width ?b + 10) = False"
    using assms unfolding appliesDamage_def Let_def by blast
  have g5: "(e_type ?e = Boss \<and> (e_variant ?e = Some Theta \<or> e_variant ?e = Some Alptraum)
             \<and> e_shieldActive ?e \<and> positive (e_shieldHp ?e)
             \<and> distance (b_x ?b) (b_y ?b) (e_x ?e) (e_y ?e) < 80) = False"
    using assms unfolding appliesDamage_def Let_def by blast
  have g6: "(distance (b_x ?b) (b_y ?b) (e_x ?e) (e_y ?e) < e_width ?e + b_width ?b) = True"
    using assms unfolding appliesDamage_def Let_def by blast
  have g7: "(e_type ?e = Boss_clone) = False"
    using assms unfolding appliesDamage_def Let_def by blast
  show ?thesis
    unfolding resolvePair_def directHit_def damaged_def Let_def
    by (simp only: g1 g2 g3 g4 g5 g6 g7 if_False if_True)
qed

lemma bullets_damaged: "bullets (damaged c bi ei s) = bullets s"
  by (simp add: damaged_def Let_def bullets_createExplosion bullets_updEnemy)























lemma explode_zero: "explode c x y r 0 = (\<lambda>e. e)"
  by (rule ext) (simp add: explode_def Let_def)

lemma createExplosion_zero: "createExplosion c x y r 0 s = s"
  by (simp add: createExplosion_def explode_zero)








lemma find_update_irrelevant:
  "\<not> P (xs ! i) \<Longrightarrow> \<not> P y \<Longrightarrow> find P (xs[i := y]) = find P xs"
proof (induction xs arbitrary: i)
  case Nil
  show ?case by simp
next
  case (Cons x xs)
  show ?case
  proof (cases i)
    case 0
    then show ?thesis using Cons.prems by simp
  next
    case (Suc j)
    then show ?thesis using Cons.prems Cons.IH[of j] by simp
  qed
qed

lemma chainNextTarget_damaged:
  assumes "ei < length (enemies s)" and "b_weaponId (bullets s ! bi) \<noteq> Some PULSE_NOVA"
  shows "chainNextTarget (enemies (damaged c bi ei s) ! ei) r (enemies (damaged c bi ei s))
         = chainNextTarget (enemies s ! ei) r (enemies s)"
  using assms
  by (simp add: damaged_def Let_def updEnemy_def chainNextTarget_def find_update_irrelevant)

lemma damaged_target:
  assumes "ei < length (enemies s)" and "b_weaponId (bullets s ! bi) \<noteq> Some PULSE_NOVA"
  shows "e_id (enemies (damaged c bi ei s) ! ei) = e_id (enemies s ! ei)
       \<and> e_x (enemies (damaged c bi ei s) ! ei) = e_x (enemies s ! ei)
       \<and> e_y (enemies (damaged c bi ei s) ! ei) = e_y (enemies s ! ei)"
  using assms by (simp add: damaged_def Let_def updEnemy_def)

subsection \<open>Death payout (C3)\<close>

text \<open>
  Claim C3 against the code. The payout block sits inside the direct-hit branch and tests
  only the enemy that the projectile touched; \<^verbatim>\<open>createExplosion\<close> subtracts hit points and
  nothing else. A rocket that strikes \<open>a\<close> pays out for \<open>a\<close>, while the bystander \<open>b\<close>,
  brought to -5 hit points by the splash, is neither marked dead nor paid out: one kill is
  counted and only the score of \<open>a\<close> is awarded.
\<close>

theorem C3_splash_kill_without_payout:
  "map e_hp (enemies (playerBulletPass config0 rocketWorld)) = [- 5, - 5]
   \<and> map e_dead (enemies (playerBulletPass config0 rocketWorld)) = [True, False]
   \<and> kills (playerBulletPass config0 rocketWorld) = 1
   \<and> score (playerBulletPass config0 rocketWorld) = 100"
  by (simp add: world_defs collide_defs)

subsection \<open>Piercing projectiles and the hit-list (C5)\<close>








subsection \<open>Chain retargeting (C6)\<close>

text \<open>
  Claim C6, as amended. A projectile without splash payout and with a positive chain count
  \<open>n\<close> that reaches the damage line on target \<open>e\<close> gets chain count \<open>n - 1\<close> and the id
  of \<open>e\<close> appended to its hit-list. The next target is the first enemy in array order that
  has another id, is not dead and is closer than 200 times the range multiplier to \<open>e\<close>.
  If there is one, the projectile moves to the position of \<open>e\<close> (the enemy just struck)
  with speed 20 along the direction from its own previous position to the next target; if
  there is none, it is marked dead.
\<close>

theorem C6_chain_retarget:
  assumes bi: "bi < length (bullets s)" and ei: "ei < length (enemies s)"
      and hit: "appliesDamage bi ei s"
      and nosplash: "\<not> (truthy (b_splashRadius (bullets s ! bi))
                        \<and> b_weaponId (bullets s ! bi) \<noteq> Some ORBITING_ORBS
                        \<and> b_weaponId (bullets s ! bi) \<noteq> Some PULSE_NOVA
                        \<and> b_weaponId (bullets s ! bi) \<noteq> Some WAVE_MOTION)"
      and nonova: "b_weaponId (bullets s ! bi) \<noteq> Some PULSE_NOVA"
      and cc: "b_chainCount (bullets s ! bi) = Some n" and n: "0 < n"
  shows "b_chainCount (bullets (resolvePair c bi ei s) ! bi) = Some (n - 1)
       \<and> b_hitList (bullets (resolvePair c bi ei s) ! bi)
           = Some (hitListOf (bullets s ! bi) @ [e_id (enemies s ! ei)])
       \<and> (case chainNextTarget (enemies s ! ei) (orElse (b_orbitRadius (bullets s ! bi)) 1) (enemies s) of
            None \<Rightarrow> b_dead (bullets (resolvePair c bi ei s) ! bi)
          | Some nextTarget \<Rightarrow>
              \<not> b_dead (bullets (resolvePair c bi ei s) ! bi)
              \<and> b_x (bullets (resolvePair c bi ei s) ! bi) = e_x (enemies s ! ei)
              \<and> b_y (bullets (resolvePair c bi ei s) ! bi) = e_y (enemies s ! ei)
              \<and> b_vx (bullets (resolvePair c bi ei s) ! bi)
                  = cos (atan2 (e_y nextTarget - b_y (bullets s ! bi))
                               (e_x nextTarget - b_x (bullets s ! bi))) * 20
              \<and> b_vy (bullets (resolvePair c bi ei s) ! bi)
                  = sin (atan2 (e_y nextTarget - b_y (bullets s ! bi))
                               (e_x nextTarget - b_x (bullets s ! bi))) * 20)"
proof -
  let ?d = "damaged c bi ei s"
  have alive: "\<not> b_dead (bullets s ! bi)"
    using hit by (simp add: appliesDamage_def Let_def)
  have oh: "onHitPayout c bi ei ?d = chainPayout bi ei ?d"
    using nosplash nonova cc n by (auto simp add: onHitPayout_def Let_def bullets_damaged positive_def)
  have rp: "bullets (resolvePair c bi ei s) = bullets (chainPayout bi ei ?d)"
    using hit by (simp add: resolvePair_appliesDamage bullets_deathPayout oh)
  show ?thesis
    unfolding rp
    using bi alive cc damaged_target[OF ei nonova, of c] chainNextTarget_damaged[OF ei nonova, of c]
    by (simp add: chainPayout_def Let_def bullets_damaged bullets_updBullet split: option.split)
qed

text \<open>
  Claim C6 as stated fails: with \<open>c\<close> nearer to the struck enemy than \<open>b\<close> but later in
  the array, the bolt is aimed at \<open>b\<close>, and it is placed on the struck enemy \<open>a\<close>, not on
  its next target.
\<close>

theorem C6_counterexample:
  "distance (e_x (enemies chainWorld ! 2)) (e_y (enemies chainWorld ! 2))
            (e_x (enemies chainWorld ! 0)) (e_y (enemies chainWorld ! 0))
     < distance (e_x (enemies chainWorld ! 1)) (e_y (enemies chainWorld ! 1))
                (e_x (enemies chainWorld ! 0)) (e_y (enemies chainWorld ! 0))
   \<and> b_vx (bullets (resolvePair config0 0 0 chainWorld) ! 0) = 20
   \<and> b_vy (bullets (resolvePair config0 0 0 chainWorld) ! 0) = 0
   \<and> b_x (bullets (resolvePair config0 0 0 chainWorld) ! 0) = e_x (enemies chainWorld ! 0)
   \<and> b_y (bullets (resolvePair config0 0 0 chainWorld) ! 0) = e_y (enemies chainWorld ! 0)
   \<and> b_x (bullets (resolvePair config0 0 0 chainWorld) ! 0) \<noteq> e_x (enemies chainWorld ! 1)
   \<and> \<not> b_dead (bullets (resolvePair config0 0 0 chainWorld) ! 0)"
  by (simp add: world_defs collide_defs atan2_def distance_def)

theorem C6_chain_retarget_witness:
  "0 < length (bullets chainWorld) \<and> 0 < length (enemies chainWorld)
   \<and> appliesDamage 0 0 chainWorld
   \<and> b_chainCount (bullets chainWorld ! 0) = Some 4
   \<and> b_chainCount (bullets (resolvePair config0 0 0 chainWorld) ! 0) = Some 3
   \<and> b_hitList (bullets (resolvePair config0 0 0 chainWorld) ! 0) = Some [''a'']
   \<and> map_option e_id (chainNextTarget (enemies chainWorld ! 0) 1.2 (enemies chainWorld)) = Some ''b''
   \<and> b_x (bullets (resolvePair config0 0 0 chainWorld) ! 0) = 100
   \<and> b_y (bullets (resolvePair config0 0 0 chainWorld) ! 0) = 300
   \<and> b_vx (bullets (resolvePair config0 0 0 chainWorld) ! 0) = 20
   \<and> b_vy (bullets (resolvePair config0 0 0 chainWorld) ! 0) = 0"
  using C6_chain_retarget [of 0 chainWorld 0 4 config0]
  by (simp add: world_defs collide_defs appliesDamage_def atan2_def)

subsection \<open>Boss phase transition (C4)\<close>

lemma clearPlayerBullet_eq: "clearPlayerBullet c bi s = updBullet bi (\<lambda>b. b\<lparr>b_dead := True\<rparr>) s"
  by (simp add: clearPlayerBullet_def createExplosion_zero)

lemma fold_clear_enemies: "enemies (fold (clearPlayerBullet c) is s) = enemies s"
  by (induction "is" arbitrary: s) (simp_all add: clearPlayerBullet_eq updBullet_def)

lemma fold_clear_other:
  "player (fold (clearPlayerBullet c) is s) = player s
   \<and> frame (fold (clearPlayerBullet c) is s) = frame s
   \<and> rnd (fold (clearPlayerBullet c) is s) = rnd s"
  by (induction "is" arbitrary: s) (simp_all add: clearPlayerBullet_eq updBullet_def)

lemma fold_clear_bullets:
  "length (bullets (fold (clearPlayerBullet c) is s)) = length (bullets s)
   \<and> (\<forall>i<length (bullets s).
         b_owner (bullets (fold (clearPlayerBullet c) is s) ! i) = b_owner (bullets s ! i)
         \<and> (i \<in> set is \<or> b_dead (bullets s ! i)
              \<longrightarrow> b_dead (bullets (fold (clearPlayerBullet c) is s) ! i)))"
proof (induction "is" arbitrary: s)
  case Nil
  show ?case by simp
next
  case (Cons j js)
  let ?t = "updBullet j (\<lambda>b. b\<lparr>b_dead := True\<rparr>) s"
  have len: "length (bullets ?t) = length (bullets s)" by (simp add: updBullet_def)
  have own: "b_owner (bullets ?t ! i) = b_owner (bullets s ! i)" if "i < length (bullets s)" for i
    using that by (cases "i = j") (simp_all add: updBullet_def)
  have dead: "b_dead (bullets ?t ! i)" if "i < length (bullets s)" "i = j \<or> b_dead (bullets s ! i)" for i
    using that by (cases "i = j") (auto simp add: updBullet_def)
  show ?case
    using Cons.IH[of ?t] len own dead
    by (simp add: clearPlayerBullet_eq)
qed

lemma phaseTrigger_bullets:
  "\<forall>i<length (bullets (phaseTrigger c ei s)).
      b_owner (bullets (phaseTrigger c ei s) ! i) = OwnerPlayer \<longrightarrow> b_dead (bullets (phaseTrigger c ei s) ! i)"
proof -
  let ?s3 = "(updEnemy ei (\<lambda>e. e\<lparr>e_phase := Some 2, e_phaseTransitionTimer := Some 120,
                                    e_dmgReduction := Some 0.5, e_dmgReductionTimer := Some 300\<rparr>) s)
               \<lparr>dialogueTimer := 180\<rparr>"
  let ?is = "filter (\<lambda>i. b_owner (bullets ?s3 ! i) = OwnerPlayer) [0..<length (bullets ?s3)]"
  let ?s4 = "fold (clearPlayerBullet c) ?is ?s3"
  have b: "bullets (phaseTrigger c ei s) = bullets ?s4"
    by (simp add: phaseTrigger_def Let_def createExplosion_zero spawnGhostDrone_def random_def)
  have "b_dead (bullets ?s4 ! i)" if "i < length (bullets ?s4)" "b_owner (bullets ?s4 ! i) = OwnerPlayer" for i
  proof -
    have i: "i < length (bullets ?s3)" using that(1) fold_clear_bullets[of c ?is ?s3] by simp
    then have "b_owner (bullets ?s3 ! i) = OwnerPlayer" using that(2) fold_clear_bullets[of c ?is ?s3] by simp
    then have "i \<in> set ?is" using i by simp
    then show ?thesis using i fold_clear_bullets[of c ?is ?s3] by blast
  qed
  then show ?thesis unfolding b by blast
qed

lemma phaseTrigger_enemy:
  assumes "ei < length (enemies s)"
  shows "enemies (phaseTrigger c ei s) ! ei
         = (enemies s ! ei)\<lparr>e_phase := Some 2, e_phaseTransitionTimer := Some 120,
                             e_dmgReduction := Some 0.5, e_dmgReductionTimer := Some 300\<rparr>
       \<and> length (enemies s) \<le> length (enemies (phaseTrigger c ei s))"
  using assms
  by (simp add: phaseTrigger_def Let_def createExplosion_zero spawnGhostDrone_def random_def
      fold_clear_enemies updEnemy_def nth_append)

lemma shieldTimerStep_keeps:
  "e_type (shieldTimerStep e) = e_type e \<and> e_phase (shieldTimerStep e) = e_phase e
   \<and> e_hp (shieldTimerStep e) = e_hp e \<and> e_maxHp (shieldTimerStep e) = e_maxHp e
   \<and> e_isGhost (shieldTimerStep e) = e_isGhost e
   \<and> e_phaseTransitionTimer (shieldTimerStep e) = e_phaseTransitionTimer e
   \<and> e_shotTimer (shieldTimerStep e) = e_shotTimer e
   \<and> e_patternTimer (shieldTimerStep e) = e_patternTimer e
   \<and> e_frozenTimer (shieldTimerStep e) = e_frozenTimer e
   \<and> e_variant (shieldTimerStep e) = e_variant e
   \<and> e_parentId (shieldTimerStep e) = e_parentId e
   \<and> e_dead (shieldTimerStep e) = e_dead e
   \<and> e_id (shieldTimerStep e) = e_id e"
  by (simp add: shieldTimerStep_def Let_def)

lemma prelude_boss_returned:
  assumes "ei < length (enemies s)" and "e_type (enemies s ! ei) = Boss"
      and "fst (bossPhaseStep c ei (updEnemy ei shieldTimerStep s)) = Returned"
  shows "enemyPrelude c ei s = bossPhaseStep c ei (updEnemy ei shieldTimerStep s)"
  using assms
  by (cases "bossPhaseStep c ei (updEnemy ei shieldTimerStep s)")
     (simp add: enemyPrelude_def Let_def updEnemy_def shieldTimerStep_keeps)

lemma prelude_trigger:
  assumes ei: "ei < length (enemies s)" and boss: "e_type (enemies s ! ei) = Boss"
      and p1: "e_phase (enemies s ! ei) = Some 1"
      and low: "e_hp (enemies s ! ei) < e_maxHp (enemies s ! ei) * 0.4"
  shows "fst (enemyPrelude c ei s) = Returned"
    and "e_phase (enemies (snd (enemyPrelude c ei s)) ! ei) = Some 2"
    and "e_phaseTransitionTimer (enemies (snd (enemyPrelude c ei s)) ! ei) = Some 119"
    and "e_dmgReduction (enemies (snd (enemyPrelude c ei s)) ! ei) = Some 0.5"
    and "e_dmgReductionTimer (enemies (snd (enemyPrelude c ei s)) ! ei) = Some 300"
    and "e_type (enemies (snd (enemyPrelude c ei s)) ! ei) = Boss"
    and "ei < length (enemies (snd (enemyPrelude c ei s)))"
    and "\<forall>b\<in>set (bullets (snd (enemyPrelude c ei s))). b_owner b = OwnerPlayer \<longrightarrow> b_dead b"
proof -
  let ?s1 = "updEnemy ei shieldTimerStep s"
  have ei1: "ei < length (enemies ?s1)" using ei by (simp add: updEnemy_def)
  have e1: "enemies ?s1 ! ei = shieldTimerStep (enemies s ! ei)" using ei by (simp add: updEnemy_def)
  have cond: "e_phase (enemies ?s1 ! ei) = Some 1 \<and> e_hp (enemies ?s1 ! ei) < e_maxHp (enemies ?s1 ! ei) * 0.4"
    using p1 low by (simp add: e1 shieldTimerStep_keeps)
  note pt = phaseTrigger_enemy[OF ei1, of c]
  have eiT: "ei < length (enemies (phaseTrigger c ei ?s1))" using pt ei1 by simp
  have P: "enemyPrelude c ei s =
        (Returned, updEnemy ei (\<lambda>e. e\<lparr>e_phaseTransitionTimer := Some (the (e_phaseTransitionTimer e) - 1),
                                    e_fightStartFrame := Some (orElse (e_fightStartFrame e) 0 + 1)\<rparr>)
                     (phaseTrigger c ei ?s1))"
  proof -
    have B: "bossPhaseStep c ei ?s1 =
        (Returned, updEnemy ei (\<lambda>e. e\<lparr>e_phaseTransitionTimer := Some (the (e_phaseTransitionTimer e) - 1),
                                    e_fightStartFrame := Some (orElse (e_fightStartFrame e) 0 + 1)\<rparr>)
                     (phaseTrigger c ei ?s1))"
      using cond pt by (simp add: bossPhaseStep_def Let_def positive_def)
    show ?thesis using prelude_boss_returned[OF ei boss, of c] B by simp
  qed
  show "fst (enemyPrelude c ei s) = Returned" by (simp add: P)
  show "e_phase (enemies (snd (enemyPrelude c ei s)) ! ei) = Some 2"
    using eiT pt by (simp add: P updEnemy_def)
  show "e_phaseTransitionTimer (enemies (snd (enemyPrelude c ei s)) ! ei) = Some 119"
    using eiT pt by (simp add: P updEnemy_def)
  show "e_dmgReduction (enemies (snd (enemyPrelude c ei s)) ! ei) = Some 0.5"
    using eiT pt by (simp add: P updEnemy_def)
  show "e_dmgReductionTimer (enemies (snd (enemyPrelude c ei s)) ! ei) = Some 300"
    using eiT pt by (simp add: P updEnemy_def)
  show "e_type (enemies (snd (enemyPrelude c ei s)) ! ei) = Boss"
    using eiT pt boss ei by (simp add: P updEnemy_def shieldTimerStep_keeps)
  show "ei < length (enemies (snd (enemyPrelude c ei s)))"
    using eiT by (simp add: P updEnemy_def)
  show "\<forall>b\<in>set (bullets (snd (enemyPrelude c ei s))). b_owner b = OwnerPlayer \<longrightarrow> b_dead b"
    using phaseTrigger_bullets[of c ei ?s1]
    by (simp add: P updEnemy_def all_set_conv_all_nth)
qed

lemma prelude_no_trigger:
  assumes ei: "ei < length (enemies s)" and boss: "e_type (enemies s ! ei) = Boss"
      and no: "\<not> (e_phase (enemies s ! ei) = Some 1 \<and> e_hp (enemies s ! ei) < e_maxHp (enemies s ! ei) * 0.4)"
  shows "e_phase (enemies (snd (enemyPrelude c ei s)) ! ei) = e_phase (enemies s ! ei)"
    and "e_type (enemies (snd (enemyPrelude c ei s)) ! ei) = Boss"
    and "length (enemies (snd (enemyPrelude c ei s))) = length (enemies s)"
    and "bullets (snd (enemyPrelude c ei s)) = bullets s"
    and "positive (e_phaseTransitionTimer (enemies s ! ei)) \<Longrightarrow>
           fst (enemyPrelude c ei s) = Returned
           \<and> e_phaseTransitionTimer (enemies (snd (enemyPrelude c ei s)) ! ei)
               = Some (the (e_phaseTransitionTimer (enemies s ! ei)) - 1)"
    and "\<not> positive (e_phaseTransitionTimer (enemies s ! ei)) \<Longrightarrow>
           fst (enemyPrelude c ei s)
             = (if positive (e_frozenTimer (enemies s ! ei)) then Returned else Dispatch)"
  using ei boss no
  by (auto simp add: enemyPrelude_def bossPhaseStep_def cloneLogic_def miniBossOrbit_def Let_def
      updEnemy_def shieldTimerStep_keeps)

lemmas behave_defs = enemyPrelude_def bossPhaseStep_def phaseTrigger_def shieldTimerStep_def
  cloneLogic_def miniBossOrbit_def findParent_def clearPlayerBullet_def spawnGhostDrone_def
  somnioReplica_def enemyStep_def typeBranch_def standardMob_def seraphDroneBranch_def
  oracleMinionBranch_def checkBounds_def reflectorToggle_def pushBullets_def enemyShot_def
  prune_def

lemma preludeTicks_Suc:
  "fst (preludeTicks c ei (Suc n) s)
     = fst (enemyPrelude c ei s) # fst (preludeTicks c ei n (snd (enemyPrelude c ei s)))"
  "snd (preludeTicks c ei (Suc n) s) = snd (preludeTicks c ei n (snd (enemyPrelude c ei s)))"
  by (simp_all add: case_prod_beta)

lemma suppression:
  assumes "ei < length (enemies s)" and "e_type (enemies s ! ei) = Boss"
      and "e_phase (enemies s ! ei) \<noteq> Some 1"
      and "e_phaseTransitionTimer (enemies s ! ei) = Some (real n)"
  shows "fst (preludeTicks c ei n s) = replicate n Returned
       \<and> e_phaseTransitionTimer (enemies (snd (preludeTicks c ei n s)) ! ei) = Some 0"
  using assms
proof (induction n arbitrary: s)
  case 0
  then show ?case by simp
next
  case (Suc n)
  let ?s1 = "snd (enemyPrelude c ei s)"
  have no: "\<not> (e_phase (enemies s ! ei) = Some 1 \<and> e_hp (enemies s ! ei) < e_maxHp (enemies s ! ei) * 0.4)"
    using Suc.prems(3) by simp
  note nt = prelude_no_trigger[OF Suc.prems(1) Suc.prems(2) no, of c]
  have pos: "positive (e_phaseTransitionTimer (enemies s ! ei))"
    using Suc.prems(4) by (simp add: positive_def)
  have r: "fst (enemyPrelude c ei s) = Returned"
    and t: "e_phaseTransitionTimer (enemies ?s1 ! ei) = Some (real n)"
    using nt(5)[OF pos] Suc.prems(4) by simp_all
  have ih: "fst (preludeTicks c ei n ?s1) = replicate n Returned
       \<and> e_phaseTransitionTimer (enemies (snd (preludeTicks c ei n ?s1)) ! ei) = Some 0"
    using Suc.IH[of ?s1] nt(1) nt(2) nt(3) Suc.prems(1) Suc.prems(3) t by simp
  show ?case using r ih by (simp add: case_prod_beta)
qed

text \<open>
  Claim C4, as amended. For a boss, the phase logic of the enemy loop flips phase 1 to
  phase 2 in the first run that finds the hit points below 40 percent of the maximum; in
  that run it grants a damage reduction of 0.5 for 300 ticks, marks every player
  projectile dead, and returns before the attack logic; the 120 runs that start with the
  flipping one all return before the attack logic, after which the transition timer is 0.
  A run that does not meet the trigger leaves the phase and the projectiles alone, so a
  boss in phase 2 never flips again. The phase logic runs before the projectile pass of the
  same tick: hit points taken by a projectile flip the phase in the next tick.
\<close>

theorem C4_phase_transition:
  assumes "ei < length (enemies s)" and "e_type (enemies s ! ei) = Boss"
  shows "(e_phase (enemies s ! ei) = Some 1 \<and> e_hp (enemies s ! ei) < e_maxHp (enemies s ! ei) * 0.4
            \<longrightarrow> fst (enemyPrelude c ei s) = Returned
              \<and> e_phase (enemies (snd (enemyPrelude c ei s)) ! ei) = Some 2
              \<and> e_dmgReduction (enemies (snd (enemyPrelude c ei s)) ! ei) = Some 0.5
              \<and> e_dmgReductionTimer (enemies (snd (enemyPrelude c ei s)) ! ei) = Some 300
              \<and> (\<forall>b\<in>set (bullets (snd (enemyPrelude c ei s))). b_owner b = OwnerPlayer \<longrightarrow> b_dead b)
              \<and> fst (preludeTicks c ei 120 s) = replicate 120 Returned
              \<and> e_phaseTransitionTimer (enemies (snd (preludeTicks c ei 120 s)) ! ei) = Some 0)
       \<and> (\<not> (e_phase (enemies s ! ei) = Some 1 \<and> e_hp (enemies s ! ei) < e_maxHp (enemies s ! ei) * 0.4)
            \<longrightarrow> e_phase (enemies (snd (enemyPrelude c ei s)) ! ei) = e_phase (enemies s ! ei)
              \<and> bullets (snd (enemyPrelude c ei s)) = bullets s)"
proof (cases "e_phase (enemies s ! ei) = Some 1 \<and> e_hp (enemies s ! ei) < e_maxHp (enemies s ! ei) * 0.4")
  case True
  note tr = prelude_trigger[OF assms, of c]
  let ?s1 = "snd (enemyPrelude c ei s)"
  have p1: "e_phase (enemies s ! ei) = Some 1" and low: "e_hp (enemies s ! ei) < e_maxHp (enemies s ! ei) * 0.4"
    using True by simp_all
  have sup: "fst (preludeTicks c ei 119 ?s1) = replicate 119 Returned
       \<and> e_phaseTransitionTimer (enemies (snd (preludeTicks c ei 119 ?s1)) ! ei) = Some 0"
    using suppression[of ei ?s1 119 c] tr(2)[OF p1 low] tr(3)[OF p1 low] tr(6)[OF p1 low] tr(7)[OF p1 low]
    by simp
  have a: "fst (preludeTicks c ei (Suc 119) s) = Returned # replicate 119 Returned"
    by (simp only: preludeTicks_Suc tr(1)[OF p1 low] conjunct1[OF sup])
  have b: "e_phaseTransitionTimer (enemies (snd (preludeTicks c ei (Suc 119) s)) ! ei) = Some 0"
    by (simp only: preludeTicks_Suc conjunct2[OF sup])
  have n: "Suc 119 = (120::nat)" by simp
  have ticks: "fst (preludeTicks c ei 120 s) = replicate 120 Returned
       \<and> e_phaseTransitionTimer (enemies (snd (preludeTicks c ei 120 s)) ! ei) = Some 0"
    using a b replicate_Suc[of 119 Returned] by (simp only: n)
  show ?thesis
    using True tr(1)[OF p1 low] tr(2)[OF p1 low] tr(4)[OF p1 low] tr(5)[OF p1 low] tr(8)[OF p1 low] ticks
    by blast
next
  case False
  show ?thesis
    using False prelude_no_trigger(1)[OF assms False, of c] prelude_no_trigger(4)[OF assms False, of c]
    by blast
qed

text \<open>
  Claim C4 as stated fails on the tick: the boss of 10000 hit points is at 4010 when the
  phase logic of the tick runs, a projectile of the same tick brings it to 3999, and the
  tick ends in phase 1; the phase logic of the following tick flips it.
\<close>

theorem C4_counterexample:
  "e_hp (enemies bossWorld ! 0) = 4010
   \<and> e_hp (enemies bossWorldAfterTick ! 0) = 3999
   \<and> e_maxHp (enemies bossWorldAfterTick ! 0) = 10000
   \<and> e_phase (enemies bossWorldAfterTick ! 0) = Some 1
   \<and> e_phase (enemies (snd (enemyPrelude config0 0 bossWorldAfterTick)) ! 0) = Some 2"
  by (simp add: bossWorldAfterTick_def bossWorld_def world_defs collide_defs behave_defs)

theorem C4_phase_transition_witness:
  "0 < length (enemies bossWorldAfterTick) \<and> e_type (enemies bossWorldAfterTick ! 0) = Boss
   \<and> e_phase (enemies bossWorldAfterTick ! 0) = Some 1
   \<and> e_hp (enemies bossWorldAfterTick ! 0) < e_maxHp (enemies bossWorldAfterTick ! 0) * 0.4
   \<and> fst (enemyPrelude config0 0 bossWorldAfterTick) = Returned
   \<and> e_dmgReduction (enemies (snd (enemyPrelude config0 0 bossWorldAfterTick)) ! 0) = Some 0.5
   \<and> fst (preludeTicks config0 0 120 bossWorldAfterTick) = replicate 120 Returned"
  using C4_phase_transition [of 0 bossWorldAfterTick config0]
  by (simp add: bossWorldAfterTick_def bossWorld_def world_defs collide_defs behave_defs)

subsection \<open>Boss removal and orphaned followers (C8)\<close>

lemmas c8_defs = thetaBoss_def follower_def thetaWorld_def thetaWorldAfter_def orphanWorld_def
  orphaned_def isDependent_def cascadeWorld_def

lemma bossCascade_dependent: "isDependent en \<Longrightarrow> e_dead (bossCascade en)"
  by (simp add: isDependent_def bossCascade_def)

lemma bossCascade_keeps: "isDependent (bossCascade en) = isDependent en"
  by (simp add: isDependent_def bossCascade_def)

lemma isDependent_explode: "isDependent (explode c x y r d en) = isDependent en"
  by (simp add: isDependent_def explode_def Let_def)

lemma bossDefeated_enemies: "enemies (bossDefeated c s) = map bossCascade (enemies s)"
  by (simp add: bossDefeated_def Let_def)

lemma bossDefeated_flags: "\<not> bossActive (bossDefeated c s) \<and> boss (bossDefeated c s) = None"
  by (simp add: bossDefeated_def Let_def)

lemma deathPayout_boss:
  assumes "e_type (enemies s ! ei) = Boss" and "e_hp (enemies s ! ei) \<le> 0" and "\<not> e_dead (enemies s ! ei)"
  shows "\<exists>t. deathPayout c bi ei s = bossDefeated c t"
  using assms by (auto simp add: deathPayout_def Let_def case_prod_beta)

lemma cascade:
  assumes "e_type (enemies s ! ei) = Boss" and "e_hp (enemies s ! ei) \<le> 0" and "\<not> e_dead (enemies s ! ei)"
  shows "(\<forall>en\<in>set (enemies (deathPayout c bi ei s)). isDependent en \<longrightarrow> e_dead en)
       \<and> \<not> bossActive (deathPayout c bi ei s) \<and> boss (deathPayout c bi ei s) = None"
proof -
  obtain t where t: "deathPayout c bi ei s = bossDefeated c t"
    using deathPayout_boss[OF assms] by blast
  have "e_dead en" if h1: "en \<in> set (map bossCascade (enemies t))" and h2: "isDependent en" for en
  proof -
    obtain x where x: "en = bossCascade x" using h1 by auto
    then show ?thesis using h2 bossCascade_dependent[of x] bossCascade_keeps[of x] by simp
  qed
  then show ?thesis unfolding t by (simp add: bossDefeated_enemies bossDefeated_flags)
qed

lemma find_update_pres:
  assumes "\<And>x. P (f x) = P x" and "\<And>x. Q (f x) = Q x"
  shows "(case find P (xs[i := f (xs ! i)]) of None \<Rightarrow> True | Some p \<Rightarrow> Q p)
         = (case find P xs of None \<Rightarrow> True | Some p \<Rightarrow> Q p)"
proof (induction xs arbitrary: i)
  case Nil
  show ?case by simp
next
  case (Cons x xs)
  show ?case
  proof (cases i)
    case 0
    then show ?thesis by (simp add: assms)
  next
    case (Suc j)
    then show ?thesis using Cons.IH[of j] by simp
  qed
qed

lemma orphaned_updEnemy:
  assumes "\<And>x. e_id (f x) = e_id x" and "\<And>x. e_dead (f x) = e_dead x"
      and "e_parentId e' = e_parentId e"
  shows "orphaned (updEnemy ei f s) e' = orphaned s e"
proof (cases "e_parentId e")
  case None
  then show ?thesis using assms(3) by (simp add: orphaned_def findParent_def)
next
  case (Some pid)
  show ?thesis
    using assms(3) Some
      find_update_pres[of "\<lambda>p. e_id p = pid" f e_dead "enemies s" ei, OF assms(1)[THEN arg_cong, of "\<lambda>i. i = pid"] assms(2)]
    by (simp add: orphaned_def findParent_def updEnemy_def)
qed

lemma checkBounds_dead: "e_dead e \<Longrightarrow> e_dead (checkBounds c e)"
  by (simp add: checkBounds_def)

lemma seraphBranch_orphan:
  assumes "ei < length (enemies t)"
      and "e_parentId (enemies t ! ei) \<noteq> None" "e_parentId (enemies t ! ei) \<noteq> Some []"
      and "orphaned t (enemies t ! ei)"
  shows "e_dead (enemies (seraphDroneBranch ei t) ! ei) \<and> ei < length (enemies (seraphDroneBranch ei t))"
  using assms
  by (auto simp add: seraphDroneBranch_def Let_def orphaned_def updEnemy_def split: option.splits)

lemma typeBranch_seraph:
  "e_type (enemies t ! ei) = Seraph_drone \<Longrightarrow> typeBranch c ei t = Some (seraphDroneBranch ei t)"
  by (simp add: typeBranch_def Let_def)

lemma seraph_orphan:
  assumes ei: "ei < length (enemies s)" and ty: "e_type (enemies s ! ei) = Seraph_drone"
      and pid: "e_parentId (enemies s ! ei) \<noteq> None" "e_parentId (enemies s ! ei) \<noteq> Some []"
      and nf: "\<not> positive (e_frozenTimer (enemies s ! ei))"
      and orph: "orphaned s (enemies s ! ei)"
  shows "enemyStep c ei s \<noteq> None \<and> e_dead (enemies (the (enemyStep c ei s)) ! ei)"
proof -
  let ?g = "\<lambda>e. (shieldTimerStep e)\<lparr>e_patternTimer := e_patternTimer (shieldTimerStep e) + 1,
                                      e_shotTimer := e_shotTimer (shieldTimerStep e) + 1\<rparr>"
  let ?s1 = "updEnemy ei ?g s"
  have P: "enemyPrelude c ei s = (Dispatch, ?s1)"
    using ei ty nf
    by (simp add: enemyPrelude_def cloneLogic_def miniBossOrbit_def updEnemy_def Let_def
        shieldTimerStep_keeps)
  have e1: "enemies ?s1 ! ei = ?g (enemies s ! ei)" using ei by (simp add: updEnemy_def)
  have eq: "orphaned ?s1 (?g (enemies s ! ei)) = orphaned s (enemies s ! ei)"
    by (rule orphaned_updEnemy) (simp_all add: shieldTimerStep_keeps)
  have o1: "orphaned ?s1 (enemies ?s1 ! ei)"
    unfolding e1 using eq orph by blast
  have ei1: "ei < length (enemies ?s1)" using ei by (simp add: updEnemy_def)
  have pid1: "e_parentId (enemies ?s1 ! ei) \<noteq> None" "e_parentId (enemies ?s1 ! ei) \<noteq> Some []"
    unfolding e1 using pid by (simp_all add: shieldTimerStep_keeps)
  have ty1: "e_type (enemies ?s1 ! ei) = Seraph_drone"
    unfolding e1 using ty by (simp add: shieldTimerStep_keeps)
  note B = seraphBranch_orphan[OF ei1 pid1 o1]
  note T = typeBranch_seraph[OF ty1, of c]
  have "enemyStep c ei s = Some (updEnemy ei (checkBounds c) (seraphDroneBranch ei ?s1))"
    using T by (simp add: enemyStep_def P)
  then show ?thesis
    using B by (simp add: updEnemy_def checkBounds_dead)
qed

lemma miniboss_orphan:
  assumes ei: "ei < length (enemies s)" and ty: "e_type (enemies s ! ei) = Alp_mini_boss"
      and pid: "e_parentId (enemies s ! ei) \<noteq> None" "e_parentId (enemies s ! ei) \<noteq> Some []"
      and orph: "orphaned s (enemies s ! ei)"
  shows "e_dead (enemies (snd (enemyPrelude c ei s)) ! ei)"
proof -
  let ?s1 = "updEnemy ei shieldTimerStep s"
  have e1: "enemies ?s1 ! ei = shieldTimerStep (enemies s ! ei)" using ei by (simp add: updEnemy_def)
  have eq: "orphaned ?s1 (shieldTimerStep (enemies s ! ei)) = orphaned s (enemies s ! ei)"
    by (rule orphaned_updEnemy) (simp_all add: shieldTimerStep_keeps)
  have o1: "orphaned ?s1 (enemies ?s1 ! ei)"
    unfolding e1 using eq orph by blast
  have M: "e_dead (miniBossOrbit ?s1 (enemies ?s1 ! ei))"
    using o1 pid ty
    by (auto simp add: miniBossOrbit_def orphaned_def e1 shieldTimerStep_keeps split: option.splits)
  have s3: "updEnemy ei (cloneLogic c ?s1) ?s1 = ?s1"
    using ei ty by (simp add: cloneLogic_def updEnemy_def shieldTimerStep_keeps)
  show ?thesis
    using ei ty M
    by (simp add: enemyPrelude_def Let_def s3 e1 shieldTimerStep_keeps)
       (simp add: updEnemy_def)
qed

text \<open>
  Claim C8, as amended. When a boss is defeated (the death payout of a projectile hit, the
  only place where the clean-up runs), every clone, ghost, mini-boss, boss reflector and
  seraph drone is marked dead in that same step, and the boss slot is freed. A seraph drone
  that is not frozen and a mini-boss, each with a parent id, mark themselves dead in their
  next behaviour step when they are orphaned. Oracle minions are in neither rule.
\<close>

theorem C8_cascade_and_orphans:
  assumes "ei < length (enemies s)"
  shows "(e_type (enemies s ! ei) = Boss \<and> e_hp (enemies s ! ei) \<le> 0 \<and> \<not> e_dead (enemies s ! ei)
            \<longrightarrow> (\<forall>en\<in>set (enemies (deathPayout c bi ei s)). isDependent en \<longrightarrow> e_dead en)
              \<and> \<not> bossActive (deathPayout c bi ei s) \<and> boss (deathPayout c bi ei s) = None)
       \<and> (e_type (enemies s ! ei) = Seraph_drone
          \<and> e_parentId (enemies s ! ei) \<noteq> None \<and> e_parentId (enemies s ! ei) \<noteq> Some []
          \<and> \<not> positive (e_frozenTimer (enemies s ! ei)) \<and> orphaned s (enemies s ! ei)
            \<longrightarrow> enemyStep c ei s \<noteq> None \<and> e_dead (enemies (the (enemyStep c ei s)) ! ei))
       \<and> (e_type (enemies s ! ei) = Alp_mini_boss
          \<and> e_parentId (enemies s ! ei) \<noteq> None \<and> e_parentId (enemies s ! ei) \<noteq> Some []
          \<and> orphaned s (enemies s ! ei)
            \<longrightarrow> e_dead (enemies (snd (enemyPrelude c ei s)) ! ei))"
  using assms cascade[of s ei c bi] seraph_orphan[of ei s c] miniboss_orphan[of ei s c]
  by blast


text \<open>
  Claim C8 as stated fails for oracle minions: when the theta boss dies, the oracle minion
  parented to it is left alive by the clean-up (the seraph drone beside it is marked dead),
  and in the next tick, orphaned, it drifts on instead of terminating.
\<close>

theorem C8_counterexample:
  "e_type (enemies thetaWorld ! 1) = Oracle_minion
   \<and> e_parentId (enemies thetaWorld ! 1) = Some (e_id (enemies thetaWorld ! 0))
   \<and> map e_dead (enemies (playerBulletPass config0 thetaWorld)) = [True, False, True]
   \<and> map e_type (enemies thetaWorldAfter) = [Oracle_minion]
   \<and> orphaned thetaWorldAfter (enemies thetaWorldAfter ! 0)
   \<and> enemyStep config0 0 thetaWorldAfter \<noteq> None
   \<and> map e_dead (enemies (the (enemyStep config0 0 thetaWorldAfter))) = [False]"
  by (simp add: c8_defs world_defs collide_defs behave_defs)

theorem C8_cascade_and_orphans_witness:
  "0 < length (enemies (orphanWorld Seraph_drone))
   \<and> e_type (enemies (orphanWorld Seraph_drone) ! 0) = Seraph_drone
   \<and> orphaned (orphanWorld Seraph_drone) (enemies (orphanWorld Seraph_drone) ! 0)
   \<and> e_dead (enemies (the (enemyStep config0 0 (orphanWorld Seraph_drone))) ! 0)
   \<and> e_type (enemies (orphanWorld Alp_mini_boss) ! 0) = Alp_mini_boss
   \<and> orphaned (orphanWorld Alp_mini_boss) (enemies (orphanWorld Alp_mini_boss) ! 0)
   \<and> e_dead (enemies (snd (enemyPrelude config0 0 (orphanWorld Alp_mini_boss))) ! 0)
   \<and> e_type (enemies cascadeWorld ! 0) = Boss \<and> e_hp (enemies cascadeWorld ! 0) \<le> 0
   \<and> \<not> e_dead (enemies cascadeWorld ! 0)
   \<and> \<not> bossActive (deathPayout config0 0 0 cascadeWorld)
   \<and> map isDependent (enemies cascadeWorld) = [False, False, True]
   \<and> map e_dead (enemies (deathPayout config0 0 0 cascadeWorld)) = [True, False, True]"
proof -
  have s: "0 < length (enemies (orphanWorld Seraph_drone))"
    "e_type (enemies (orphanWorld Seraph_drone) ! 0) = Seraph_drone"
    "e_parentId (enemies (orphanWorld Seraph_drone) ! 0) \<noteq> None"
    "e_parentId (enemies (orphanWorld Seraph_drone) ! 0) \<noteq> Some []"
    "\<not> positive (e_frozenTimer (enemies (orphanWorld Seraph_drone) ! 0))"
    "orphaned (orphanWorld Seraph_drone) (enemies (orphanWorld Seraph_drone) ! 0)"
    by (simp_all add: c8_defs fixture_defs findParent_def positive_def)
  have m: "0 < length (enemies (orphanWorld Alp_mini_boss))"
    "e_type (enemies (orphanWorld Alp_mini_boss) ! 0) = Alp_mini_boss"
    "e_parentId (enemies (orphanWorld Alp_mini_boss) ! 0) \<noteq> None"
    "e_parentId (enemies (orphanWorld Alp_mini_boss) ! 0) \<noteq> Some []"
    "orphaned (orphanWorld Alp_mini_boss) (enemies (orphanWorld Alp_mini_boss) ! 0)"
    by (simp_all add: c8_defs fixture_defs findParent_def positive_def)
  have b: "0 < length (enemies cascadeWorld)"
    "e_type (enemies cascadeWorld ! 0) = Boss" "e_hp (enemies cascadeWorld ! 0) \<le> 0"
    "\<not> e_dead (enemies cascadeWorld ! 0)"
    "map isDependent (enemies cascadeWorld) = [False, False, True]"
    by (simp_all add: c8_defs fixture_defs)
  have d: "map e_dead (enemies (deathPayout config0 0 0 cascadeWorld)) = [True, False, True]"
    by (simp add: c8_defs world_defs collide_defs)
  show ?thesis
    using C8_cascade_and_orphans [of 0 "orphanWorld Seraph_drone" config0 0]
          C8_cascade_and_orphans [of 0 "orphanWorld Alp_mini_boss" config0 0]
          C8_cascade_and_orphans [of 0 cascadeWorld config0 0]
          s m b d
    by blast
qed

subsection \<open>The shots-fired counter (C10)\<close>

lemmas fire_defs = fire_def fireWeapon_def needle_def blade_def playerShot_def dmgMult_def
  baseFireRate_def isOverclocked_def

lemma shotsFired_pushBullets [simp]: "shotsFired (pushBullets bs s) = shotsFired s"
  by (simp add: pushBullets_def)

lemma shotsFired_random [simp]: "shotsFired (snd (random s)) = shotsFired s"
  by (simp add: random_def)

lemma shotsFired_needle: "shotsFired (needle w n sm d i s) = shotsFired s"
  by (simp add: needle_def case_prod_beta)

lemma shotsFired_blade: "shotsFired (blade w d i s) = shotsFired s"
  by (simp add: blade_def case_prod_beta)

lemma shotsFired_fold_needle: "shotsFired (fold (needle w n sm d) is s) = shotsFired s"
  by (induction "is" arbitrary: s) (simp_all add: shotsFired_needle)

lemma shotsFired_fold_blade: "shotsFired (fold (blade w d) is s) = shotsFired s"
  by (induction "is" arbitrary: s) (simp_all add: shotsFired_blade)

lemma shotsFired_fireWeapon: "shotsFired (fireWeapon c w s) = shotsFired s + 1"
  by (cases w)
     (simp_all add: fireWeapon_def Let_def case_prod_beta shotsFired_fold_needle
        shotsFired_fold_blade)

lemma shotsFired_fold_fireWeapon:
  "shotsFired (fold (fireWeapon c) ws s) = shotsFired s + length ws"
  by (induction ws arbitrary: s) (simp_all add: shotsFired_fireWeapon)

lemma gauss_idle:
  "frame s mod 40 \<noteq> 0 \<Longrightarrow> bullets (fireWeapon c GAUSS_CANNON s) = bullets s"
  by (simp add: fireWeapon_def Let_def)

lemma shotgun_spread:
  "length (bullets (fireWeapon c SPREAD_SHOTGUN s))
     = length (bullets s) + (if p_weaponLevels (player s) SPREAD_SHOTGUN \<ge> 3 then 7 else 5)"
  by (simp add: fireWeapon_def Let_def pushBullets_def)

text \<open>
  Claim C10, as amended. On a frame where a fire key is held and the frame number is a
  multiple of the fire rate, the shots-fired counter goes up by the number of equipped
  weapons, and on every other frame it stays: each run of the weapon callback counts exactly
  one, before the weapon's case decides what to push. The count does not look at the bullets:
  a gauss cannon off its 40-frame cycle pushes nothing and a shotgun pushes five or seven
  bullets, and each is counted as one shot. The statistics handed to the outcome event
  carry this counter.
\<close>

theorem C10_shots_fired_counter:
  "shotsFired (fire c s) =
     shotsFired s + (if (keys s ''KeyZ'' \<or> keys s ''Space'') \<and> frame s mod baseFireRate s = 0
                     then length (p_equippedWeapons (player s)) else 0)
   \<and> shotsFired (fireWeapon c w s) = shotsFired s + 1
   \<and> (frame s mod 40 \<noteq> 0 \<longrightarrow> bullets (fireWeapon c GAUSS_CANNON s) = bullets s)
   \<and> length (bullets (fireWeapon c SPREAD_SHOTGUN s))
       = length (bullets s) + (if p_weaponLevels (player s) SPREAD_SHOTGUN \<ge> 3 then 7 else 5)
   \<and> sessionStats (fire c s) =
       Some (kills (fire c s), bossKills (fire c s),
             shotsFired s + (if (keys s ''KeyZ'' \<or> keys s ''Space'') \<and> frame s mod baseFireRate s = 0
                             then length (p_equippedWeapons (player s)) else 0),
             stage (fire c s))"
  using gauss_idle [where s = s and c = c] shotgun_spread [where s = s and c = c]
  by (simp add: fire_def shotsFired_fold_fireWeapon shotsFired_fireWeapon sessionStats_def)

text \<open>
  Claim C10 as stated fails: on frame 6, with the fire key held, a gauss cannon pushes no
  projectile and the counter still goes up by one for it; with the shotgun beside it the
  tick pushes five projectiles and counts two shots.
\<close>

theorem C10_counterexample:
  "keys gaussWorld ''KeyZ'' \<and> frame gaussWorld mod baseFireRate gaussWorld = 0
   \<and> p_equippedWeapons (player gaussWorld) = [GAUSS_CANNON, SPREAD_SHOTGUN]
   \<and> bullets gaussWorld = []
   \<and> bullets (fireWeapon config0 GAUSS_CANNON gaussWorld) = []
   \<and> shotsFired (fireWeapon config0 GAUSS_CANNON gaussWorld) = shotsFired gaussWorld + 1
   \<and> length (bullets (fire config0 gaussWorld)) = 5
   \<and> shotsFired (fire config0 gaussWorld) = shotsFired gaussWorld + 2"
  by (simp add: gaussWorld_def fire_defs fixture_defs pushBullets_def upto.simps)

theorem C10_shots_fired_counter_witness:
  "frame gaussWorld mod 40 \<noteq> 0
   \<and> shotsFired gaussWorld = 0
   \<and> shotsFired (fire config0 gaussWorld) = 2
   \<and> shotsFired (fireWeapon config0 GAUSS_CANNON gaussWorld) = 1
   \<and> bullets (fireWeapon config0 GAUSS_CANNON gaussWorld) = bullets gaussWorld
   \<and> length (bullets (fireWeapon config0 SPREAD_SHOTGUN gaussWorld)) = 5"
  using C10_shots_fired_counter [where s = gaussWorld and c = config0 and w = GAUSS_CANNON]
  by (simp add: gaussWorld_def fixture_defs baseFireRate_def isOverclocked_def positive_def)


subsection \<open>Time dilation (C7)\<close>

lemma random_timeScale:
  "random (s\<lparr>timeScale := ts\<rparr>) = (fst (random s), (snd (random s))\<lparr>timeScale := ts\<rparr>)"
  by (simp add: random_def)

lemma pushBullets_timeScale:
  "pushBullets bs (s\<lparr>timeScale := ts\<rparr>) = (pushBullets bs s)\<lparr>timeScale := ts\<rparr>"
  by (simp add: pushBullets_def)

lemma needle_timeScale:
  "needle w n sm d i (s\<lparr>timeScale := ts\<rparr>) = (needle w n sm d i s)\<lparr>timeScale := ts\<rparr>"
  by (simp add: needle_def random_def pushBullets_def)

lemma blade_timeScale:
  "blade w d i (s\<lparr>timeScale := ts\<rparr>) = (blade w d i s)\<lparr>timeScale := ts\<rparr>"
  by (simp add: blade_def random_def pushBullets_def)

lemma fold_needle_timeScale:
  "fold (needle w n sm d) is (s\<lparr>timeScale := ts\<rparr>) = (fold (needle w n sm d) is s)\<lparr>timeScale := ts\<rparr>"
  by (induction "is" arbitrary: s) (simp_all add: needle_timeScale)

lemma fold_blade_timeScale:
  "fold (blade w d) is (s\<lparr>timeScale := ts\<rparr>) = (fold (blade w d) is s)\<lparr>timeScale := ts\<rparr>"
  by (induction "is" arbitrary: s) (simp_all add: blade_timeScale)

lemma shots_timeScale:
  "(s\<lparr>timeScale := ts\<rparr>)\<lparr>shotsFired := n\<rparr> = (s\<lparr>shotsFired := n\<rparr>)\<lparr>timeScale := ts\<rparr>"
  by simp

lemma fold_needle_shots:
  "fold (needle w n sm d) is (s\<lparr>timeScale := ts, shotsFired := k\<rparr>)
     = (fold (needle w n sm d) is (s\<lparr>shotsFired := k\<rparr>))\<lparr>timeScale := ts\<rparr>"
proof -
  have "s\<lparr>timeScale := ts, shotsFired := k\<rparr> = (s\<lparr>shotsFired := k\<rparr>)\<lparr>timeScale := ts\<rparr>"
    by simp
  then show ?thesis by (simp only: fold_needle_timeScale)
qed

lemma fold_blade_shots:
  "fold (blade w d) is (s\<lparr>timeScale := ts, shotsFired := k\<rparr>)
     = (fold (blade w d) is (s\<lparr>shotsFired := k\<rparr>))\<lparr>timeScale := ts\<rparr>"
proof -
  have "s\<lparr>timeScale := ts, shotsFired := k\<rparr> = (s\<lparr>shotsFired := k\<rparr>)\<lparr>timeScale := ts\<rparr>"
    by simp
  then show ?thesis by (simp only: fold_blade_timeScale)
qed

lemma fireWeapon_timeScale:
  "fireWeapon c w (s\<lparr>timeScale := ts\<rparr>) = (fireWeapon c w s)\<lparr>timeScale := ts\<rparr>"
  by (cases w)
     (simp_all add: fireWeapon_def Let_def random_def pushBullets_def fold_needle_shots
        fold_blade_shots)

lemma fold_fireWeapon_timeScale:
  "fold (fireWeapon c) ws (s\<lparr>timeScale := ts\<rparr>) = (fold (fireWeapon c) ws s)\<lparr>timeScale := ts\<rparr>"
  by (induction ws arbitrary: s) (simp_all add: fireWeapon_timeScale)

lemma fire_timeScale: "fire c (s\<lparr>timeScale := ts\<rparr>) = (fire c s)\<lparr>timeScale := ts\<rparr>"
  by (simp add: fire_def fold_fireWeapon_timeScale baseFireRate_def isOverclocked_def)

lemma updateTimeScale_value:
  "timeScale (updateTimeScale s) =
     (case p_activeBuffs (player s) TIME_DILATOR of
        None \<Rightarrow> 1 | Some v \<Rightarrow> if v > 0 \<and> v \<noteq> 1 then 0.2 else 1)"
  by (simp add: updateTimeScale_def tickBuffs_def truthy_def Let_def split: option.splits)

lemma descent:
  assumes "ei < length (enemies s)" "descentRate (e_type (enemies s ! ei)) = Some k"
  shows "standardMob c ei s \<noteq> None
         \<and> e_y (enemies (the (standardMob c ei s)) ! ei) = e_y (enemies s ! ei) + k * timeScale s"
proof -
  consider "e_type (enemies s ! ei) = Drone \<and> k = 2" | "e_type (enemies s ! ei) = Tank \<and> k = 0.8"
    | "e_type (enemies s ! ei) = Stealth \<and> k = 1.5" | "e_type (enemies s ! ei) = Illusion_clone \<and> k = 2"
    | "e_type (enemies s ! ei) = Swarmer \<and> k = 4" | "e_type (enemies s ! ei) = Reflector \<and> k = 0.5"
    using assms(2) by (simp add: descentRate_def split: if_splits)
  then show ?thesis
  proof cases
    case 1 then show ?thesis using assms(1)
      by (simp add: standardMob_def Let_def updEnemy_def pushBullets_def)
  next
    case 2 then show ?thesis using assms(1)
      by (simp add: standardMob_def Let_def updEnemy_def pushBullets_def)
  next
    case 3 then show ?thesis using assms(1)
      by (simp add: standardMob_def Let_def updEnemy_def pushBullets_def)
  next
    case 4 then show ?thesis using assms(1)
      by (simp add: standardMob_def Let_def updEnemy_def pushBullets_def)
  next
    case 5 then show ?thesis using assms(1)
      by (simp add: standardMob_def Let_def updEnemy_def pushBullets_def)
  next
    case 6 then show ?thesis using assms(1)
      by (simp add: standardMob_def Let_def updEnemy_def pushBullets_def reflectorToggle_def)
  qed
qed

lemma prelude_timers:
  assumes ei: "ei < length (enemies s)" and d: "fst (enemyPrelude c ei s) = Dispatch"
  shows "e_shotTimer (enemies (snd (enemyPrelude c ei s)) ! ei) = e_shotTimer (enemies s ! ei) + 1
       \<and> e_patternTimer (enemies (snd (enemyPrelude c ei s)) ! ei)
           = e_patternTimer (enemies s ! ei) + 1"
proof -
  have t: "e_shotTimer (shieldTimerStep e) = e_shotTimer e
           \<and> e_patternTimer (shieldTimerStep e) = e_patternTimer e" for e
    by (simp add: shieldTimerStep_def Let_def)
  have cl: "e_shotTimer (cloneLogic c t e) = e_shotTimer e
           \<and> e_patternTimer (cloneLogic c t e) = e_patternTimer e" for t e
    by (simp add: cloneLogic_def)
  have mb: "e_shotTimer (miniBossOrbit t e) = e_shotTimer e
           \<and> e_patternTimer (miniBossOrbit t e) = e_patternTimer e" for t e
    by (simp add: miniBossOrbit_def Let_def split: option.splits)
  show ?thesis
  proof (cases "e_type (enemies s ! ei) = Boss")
    case False
    then show ?thesis
      using ei d
      by (simp add: enemyPrelude_def Let_def updEnemy_def t cl mb shieldTimerStep_keeps
            split: if_splits)
  next
    case True
    have no: "\<not> (e_phase (enemies s ! ei) = Some 1
                 \<and> e_hp (enemies s ! ei) < e_maxHp (enemies s ! ei) * 0.4)"
      using prelude_trigger(1) [OF ei True, of c] d by auto
    have bp: "bossPhaseStep c ei (updEnemy ei shieldTimerStep s)
              = (if positive (e_phaseTransitionTimer (enemies (updEnemy ei shieldTimerStep s) ! ei))
                 then (Returned,
                       updEnemy ei (\<lambda>e. e\<lparr>e_phaseTransitionTimer := Some (the (e_phaseTransitionTimer e) - 1),
                                    e_fightStartFrame := Some (orElse (e_fightStartFrame e) 0 + 1)\<rparr>)
                         (updEnemy ei shieldTimerStep s))
                 else (Dispatch, updEnemy ei shieldTimerStep s))"
      using ei no
      by (auto simp add: bossPhaseStep_def Let_def updEnemy_def shieldTimerStep_keeps)
    have ty: "e_type (enemies (updEnemy ei shieldTimerStep s) ! ei) = Boss"
      using ei True by (simp add: updEnemy_def shieldTimerStep_keeps)
    have gh: "\<not> (e_isGhost (enemies (updEnemy ei shieldTimerStep s) ! ei)
                \<and> e_type (enemies (updEnemy ei shieldTimerStep s) ! ei) = Drone)"
      using ty by simp
    show ?thesis
      using ei d
      apply (simp only: enemyPrelude_def Let_def bp ty gh if_True if_False)
      apply (simp add: updEnemy_def t cl mb split: if_splits)
      done
  qed
qed

lemma findParent_timeScale: "findParent (s\<lparr>timeScale := ts\<rparr>) e = findParent s e"
  by (simp add: findParent_def split: option.splits)

lemma oracle_timeScale:
  "oracleMinionBranch c ei (s\<lparr>timeScale := ts\<rparr>) = (oracleMinionBranch c ei s)\<lparr>timeScale := ts\<rparr>"
  by (simp add: oracleMinionBranch_def Let_def findParent_timeScale random_def pushBullets_def
        updEnemy_def split: option.splits)

lemma seraph_timeScale:
  "seraphDroneBranch ei (s\<lparr>timeScale := ts\<rparr>) = (seraphDroneBranch ei s)\<lparr>timeScale := ts\<rparr>"
  by (simp add: seraphDroneBranch_def Let_def findParent_timeScale pushBullets_def
        updEnemy_def split: option.splits)

lemma advance_enemy:
  assumes "b_owner b = OwnerEnemy" "b_weaponId b \<noteq> Some ORBITING_ORBS" "\<not> b_isSpawner b"
  shows "b_x (advanceBullet ts b) = b_x b + b_vx b * ts
       \<and> b_y (advanceBullet ts b) = b_y b + b_vy b * ts"
  using assms by (simp add: advanceBullet_def)

lemma advance_player: "b_owner b = OwnerPlayer \<Longrightarrow> advanceBullet ts b = advanceBullet 1 b"
  by (simp add: advanceBullet_def)

lemma player_timeScale:
  "playerSpeed (s\<lparr>timeScale := ts\<rparr>) = playerSpeed s
   \<and> playerSpeed (s\<lparr>player := (player s)\<lparr>p_activeBuffs := (p_activeBuffs (player s))(TIME_DILATOR := v)\<rparr>\<rparr>)
       = playerSpeed s
   \<and> baseFireRate (s\<lparr>player := (player s)\<lparr>p_activeBuffs := (p_activeBuffs (player s))(TIME_DILATOR := v)\<rparr>\<rparr>)
       = baseFireRate s"
  by (simp add: playerSpeed_def baseFireRate_def isOverclocked_def)

text \<open>
  Claim C7, as amended. The buff update sets the time scale to 0.2 when the time-dilation
  buff is positive and not on its last frame, and to 1 otherwise. The time scale multiplies
  the displacement of every enemy bullet that moves by its velocity and the descent of the
  standard mobs. It does not slow the enemies' timers: whenever the enemy callback reaches
  its type branch, the pattern timer and the shot timer have gone up by exactly one, so
  enemies fire on the same frames as at full speed; and the branches of the boss followers
  (oracle minions, seraph drones) do not read the time scale, so a change of the time scale
  changes nothing in what they do. The player's side is untouched: player
  bullets advance as at time scale 1, the movement speed and the fire rate read neither the
  time scale nor the time-dilation buff, and the whole fire block commutes with a change of
  the time scale.
\<close>

theorem C7_time_scale:
  assumes "ei < length (enemies s)"
  shows "timeScale (updateTimeScale s) =
           (case p_activeBuffs (player s) TIME_DILATOR of
              None \<Rightarrow> 1 | Some v \<Rightarrow> if v > 0 \<and> v \<noteq> 1 then 0.2 else 1)
       \<and> (b_owner b = OwnerEnemy \<and> b_weaponId b \<noteq> Some ORBITING_ORBS \<and> \<not> b_isSpawner b \<longrightarrow>
            b_x (advanceBullet ts b) = b_x b + b_vx b * ts
            \<and> b_y (advanceBullet ts b) = b_y b + b_vy b * ts)
       \<and> (descentRate (e_type (enemies s ! ei)) = Some k \<longrightarrow>
            standardMob c ei s \<noteq> None
            \<and> e_y (enemies (the (standardMob c ei s)) ! ei) = e_y (enemies s ! ei) + k * timeScale s)
       \<and> (fst (enemyPrelude c ei s) = Dispatch \<longrightarrow>
            e_shotTimer (enemies (snd (enemyPrelude c ei s)) ! ei) = e_shotTimer (enemies s ! ei) + 1
            \<and> e_patternTimer (enemies (snd (enemyPrelude c ei s)) ! ei)
                = e_patternTimer (enemies s ! ei) + 1)
       \<and> (b_owner b' = OwnerPlayer \<longrightarrow> advanceBullet ts b' = advanceBullet 1 b')
       \<and> playerSpeed (s\<lparr>timeScale := ts\<rparr>) = playerSpeed s
       \<and> playerSpeed (s\<lparr>player := (player s)\<lparr>p_activeBuffs := (p_activeBuffs (player s))(TIME_DILATOR := v)\<rparr>\<rparr>)
           = playerSpeed s
       \<and> baseFireRate (s\<lparr>player := (player s)\<lparr>p_activeBuffs := (p_activeBuffs (player s))(TIME_DILATOR := v)\<rparr>\<rparr>)
           = baseFireRate s
       \<and> fire c (s\<lparr>timeScale := ts\<rparr>) = (fire c s)\<lparr>timeScale := ts\<rparr>
       \<and> oracleMinionBranch c ei (s\<lparr>timeScale := ts\<rparr>)
           = (oracleMinionBranch c ei s)\<lparr>timeScale := ts\<rparr>
       \<and> seraphDroneBranch ei (s\<lparr>timeScale := ts\<rparr>)
           = (seraphDroneBranch ei s)\<lparr>timeScale := ts\<rparr>"
  using updateTimeScale_value [where s = s] advance_enemy [where b = b and ts = ts]
    oracle_timeScale [where s = s and c = c and ei = ei and ts = ts]
    seraph_timeScale [where s = s and ei = ei and ts = ts]
    descent [OF assms, where k = k and c = c] prelude_timers [OF assms, where c = c]
    advance_player [where b = b' and ts = ts] player_timeScale [where s = s and ts = ts and v = v]
    fire_timeScale [where c = c and s = s and ts = ts]
  by blast

lemmas c7_defs = tankWorld_def updateTimeScale_def tickBuffs_def truthy_def orphanWorld_def
  follower_def

text \<open>
  Claim C7 as stated fails for timers, and for the movement of boss followers. With the
  buff active (time scale 0.2) a tank descends 0.16 instead of 0.8, but its shot timer goes
  from 90 to 91 exactly as without the buff, and it fires its three bullets in that same
  tick. An orphaned oracle minion drifts one full unit per tick at time scale 0.2.
\<close>

theorem C7_counterexample:
  "timeScale (tankWorld 90 (Some 300)) = 0.2
   \<and> timeScale (tankWorld 90 None) = 1
   \<and> enemyStep config0 0 (tankWorld 90 (Some 300)) \<noteq> None
   \<and> e_y (enemies (the (enemyStep config0 0 (tankWorld 90 (Some 300)))) ! 0) = 100.16
   \<and> e_y (enemies (the (enemyStep config0 0 (tankWorld 90 None))) ! 0) = 100.8
   \<and> e_shotTimer (enemies (snd (enemyPrelude config0 0 (tankWorld 90 (Some 300)))) ! 0) = 91
   \<and> e_shotTimer (enemies (snd (enemyPrelude config0 0 (tankWorld 90 None))) ! 0) = 91
   \<and> bullets (tankWorld 90 (Some 300)) = []
   \<and> length (bullets (the (enemyStep config0 0 (tankWorld 90 (Some 300))))) = 3
   \<and> e_x (enemies (orphanWorld Oracle_minion) ! 0) = 300
   \<and> e_x (enemies (the (enemyStep config0 0 ((orphanWorld Oracle_minion)\<lparr>timeScale := 0.2\<rparr>))) ! 0)
       = 301"
proof -
  have a: "timeScale (tankWorld 90 (Some 300)) = 0.2 \<and> timeScale (tankWorld 90 None) = 1
           \<and> bullets (tankWorld 90 (Some 300)) = []"
    by (simp add: c7_defs fixture_defs Let_def)
  have b: "enemyStep config0 0 (tankWorld 90 (Some 300)) \<noteq> None
   \<and> e_y (enemies (the (enemyStep config0 0 (tankWorld 90 (Some 300)))) ! 0) = 100.16
   \<and> length (bullets (the (enemyStep config0 0 (tankWorld 90 (Some 300))))) = 3"
    by (simp add: c7_defs fixture_defs behave_defs updEnemy_def positive_def Let_def)
  have c: "e_y (enemies (the (enemyStep config0 0 (tankWorld 90 None))) ! 0) = 100.8"
    by (simp add: c7_defs fixture_defs behave_defs updEnemy_def positive_def Let_def)
  have d: "e_shotTimer (enemies (snd (enemyPrelude config0 0 (tankWorld 90 (Some 300)))) ! 0) = 91
   \<and> e_shotTimer (enemies (snd (enemyPrelude config0 0 (tankWorld 90 None))) ! 0) = 91"
    by (simp add: c7_defs fixture_defs behave_defs updEnemy_def positive_def Let_def)
  have e: "e_x (enemies (orphanWorld Oracle_minion) ! 0) = 300
   \<and> e_x (enemies (the (enemyStep config0 0 ((orphanWorld Oracle_minion)\<lparr>timeScale := 0.2\<rparr>))) ! 0)
       = 301"
    by (simp add: c7_defs fixture_defs behave_defs updEnemy_def positive_def orElse_def Let_def)
  show ?thesis using a b c d e by blast
qed

theorem C7_time_scale_witness:
  "0 < length (enemies (tankWorld 50 (Some 300)))
   \<and> timeScale (tankWorld 50 (Some 300)) = 0.2
   \<and> p_activeBuffs (player (tankWorld 50 (Some 300))) TIME_DILATOR = Some 299
   \<and> timeScale (updateTimeScale (tankWorld 50 (Some 300))) = 0.2
   \<and> b_owner (enemyShot 300 100 8 0 3 15) = OwnerEnemy
   \<and> descentRate (e_type (enemies (tankWorld 50 (Some 300)) ! 0)) = Some 0.8
   \<and> fst (enemyPrelude config0 0 (tankWorld 50 (Some 300))) = Dispatch
   \<and> b_owner (playerShot PLASMA_CUTTER 300 690 4 12 0 (- 15) 10) = OwnerPlayer
   \<and> b_y (advanceBullet 0.2 (enemyShot 300 100 8 0 3 15))
       = b_y (enemyShot 300 100 8 0 3 15) + b_vy (enemyShot 300 100 8 0 3 15) * 0.2
   \<and> e_y (enemies (the (standardMob config0 0 (tankWorld 50 (Some 300)))) ! 0)
       = e_y (enemies (tankWorld 50 (Some 300)) ! 0) + 0.8 * timeScale (tankWorld 50 (Some 300))
   \<and> e_shotTimer (enemies (snd (enemyPrelude config0 0 (tankWorld 50 (Some 300)))) ! 0)
       = e_shotTimer (enemies (tankWorld 50 (Some 300)) ! 0) + 1
   \<and> advanceBullet 0.2 (playerShot PLASMA_CUTTER 300 690 4 12 0 (- 15) 10)
       = advanceBullet 1 (playerShot PLASMA_CUTTER 300 690 4 12 0 (- 15) 10)"
proof -
  have l: "0 < length (enemies (tankWorld 50 (Some 300)))"
    by (simp add: c7_defs Let_def)
  have ts: "timeScale (tankWorld 50 (Some 300)) = 0.2
            \<and> p_activeBuffs (player (tankWorld 50 (Some 300))) TIME_DILATOR = Some 299"
    by (simp add: c7_defs fixture_defs Let_def)
  have o: "b_owner (enemyShot 300 100 8 0 3 15) = OwnerEnemy
           \<and> b_weaponId (enemyShot 300 100 8 0 3 15) \<noteq> Some ORBITING_ORBS
           \<and> \<not> b_isSpawner (enemyShot 300 100 8 0 3 15)"
    by (simp add: enemyShot_def bulletLiteral_def)
  have d: "descentRate (e_type (enemies (tankWorld 50 (Some 300)) ! 0)) = Some 0.8"
    by (simp add: c7_defs enemyLiteral_def descentRate_def Let_def)
  have f: "fst (enemyPrelude config0 0 (tankWorld 50 (Some 300))) = Dispatch"
    by (simp add: c7_defs fixture_defs behave_defs updEnemy_def positive_def Let_def)
  have p: "b_owner (playerShot PLASMA_CUTTER 300 690 4 12 0 (- 15) 10) = OwnerPlayer"
    by (simp add: playerShot_def bulletLiteral_def)
  note t = C7_time_scale [OF l, where c = config0 and k = "0.8"
        and b = "enemyShot 300 100 8 0 3 15" and ts = "0.2" and v = None
        and b' = "playerShot PLASMA_CUTTER 300 690 4 12 0 (- 15) 10"]
  have u: "timeScale (updateTimeScale (tankWorld 50 (Some 300))) = 0.2"
  proof -
    have "timeScale (updateTimeScale (tankWorld 50 (Some 300))) =
           (case p_activeBuffs (player (tankWorld 50 (Some 300))) TIME_DILATOR of
              None \<Rightarrow> 1 | Some v \<Rightarrow> if v > 0 \<and> v \<noteq> 1 then 0.2 else 1)"
      using t by blast
    then show ?thesis using ts by simp
  qed
  have r: "b_y (advanceBullet 0.2 (enemyShot 300 100 8 0 3 15))
       = b_y (enemyShot 300 100 8 0 3 15) + b_vy (enemyShot 300 100 8 0 3 15) * 0.2
   \<and> e_y (enemies (the (standardMob config0 0 (tankWorld 50 (Some 300)))) ! 0)
       = e_y (enemies (tankWorld 50 (Some 300)) ! 0) + 0.8 * timeScale (tankWorld 50 (Some 300))
   \<and> e_shotTimer (enemies (snd (enemyPrelude config0 0 (tankWorld 50 (Some 300)))) ! 0)
       = e_shotTimer (enemies (tankWorld 50 (Some 300)) ! 0) + 1
   \<and> advanceBullet 0.2 (playerShot PLASMA_CUTTER 300 690 4 12 0 (- 15) 10)
       = advanceBullet 1 (playerShot PLASMA_CUTTER 300 690 4 12 0 (- 15) 10)"
    using t o d f p by blast
  show ?thesis using l ts u o d f p r by blast
qed


end
